theory Spec2Isabelle
  imports Main "HOL-Library.Word" "HOL-Library.AList"
begin

section \<open>Shared types\<close>

text \<open>
  Go errors are modelled by their message; \<open>xerrors.Errorf("ctx: %w", err)\<close> prefixes
  the message of the wrapped error. A function returning \<open>(v, error)\<close> is a sum with
  \<open>Inl\<close> the error; a function returning only \<open>error\<close> is an \<open>err option\<close>, \<open>None\<close> being
  \<open>nil\<close>.
\<close>

type_synonym err = string
type_synonym byte = "8 word"
type_synonym path = string

datatype cid = Undef | Cid nat

type_synonym ipld_Node = nat
type_synonym RegisteredSealProof = int
type_synonym OnNewCarBlockFunc = nat
type_synonym Blockstore = "cid \<Rightarrow> byte list option"

section \<open>Package pieceio\<close>

subsection \<open>Interfaces and external capabilities\<close>

text \<open>
  An \<open>io.Reader\<close> is modelled by the bytes it yields until end of file, an \<open>io.Writer\<close> by
  the bytes it receives. \<open>PreparedCar.Dump(w)\<close> is the pair of the bytes it puts on \<open>w\<close>
  and the error it returns; \<open>CarIO.WriteCar(..., w, ...)\<close> likewise.
\<close>

record PreparedCar =
  Size :: "64 word"
  Dump :: "byte list \<times> err option"

record CarIO =
  WriteCar :: "Blockstore \<Rightarrow> cid \<Rightarrow> ipld_Node \<Rightarrow> OnNewCarBlockFunc list \<Rightarrow> byte list \<times> err option"
  PrepareCar :: "Blockstore \<Rightarrow> cid \<Rightarrow> ipld_Node \<Rightarrow> err + PreparedCar"

text \<open>
  The two ends of an \<open>os.Pipe\<close>: the results of closing the read end and the write end.
  What is read from the read end is what was written to the write end.
\<close>

record Pipe =
  r_Close :: "err option"
  w_Close :: "err option"

text \<open>
  Modelled from the spec: the file store (package filestore), whose code is not among the
  sources here. A temporary file is created empty, so after the archive has been written
  into it its length is the number of bytes written, and rewound to the start it reads
  back those bytes. \<open>Seek\<close> and \<open>Close\<close> are the results of \<open>f.Seek(0, io.SeekStart)\<close> and
  \<open>f.Close()\<close>; \<open>Delete\<close> is the result of \<open>store.Delete\<close> on a path.
\<close>

record File =
  Path :: path
  Seek :: "err option"
  Close :: "err option"

record FileStore =
  CreateTemp :: "err + File"
  Delete :: "path \<Rightarrow> err option"

text \<open>
  The libraries the pipeline calls: \<open>padreader.New\<close> (from a reader and the unpadded size
  to the padded reader and the padded size), \<open>ffiwrapper.GeneratePieceCIDFromFile\<close> and
  \<open>os.Pipe\<close>. They are parameters of the model.
\<close>

record Externals =
  padreader_New :: "byte list \<Rightarrow> 64 word \<Rightarrow> byte list \<times> 64 word"
  GeneratePieceCIDFromFile :: "RegisteredSealProof \<Rightarrow> byte list \<Rightarrow> 64 word \<Rightarrow> err + cid"
  os_Pipe :: "err + Pipe"

record pieceIO =
  carIO :: CarIO
  bs :: Blockstore

text \<open>\<open>pieceIOWithStore\<close> embeds \<open>pieceIO\<close>, so the methods of \<open>pieceIO\<close> apply to it.\<close>

record pieceIOWithStore = pieceIO +
  store :: FileStore

definition NewPieceIO :: "CarIO \<Rightarrow> Blockstore \<Rightarrow> pieceIO" where
  "NewPieceIO c b = \<lparr>carIO = c, bs = b\<rparr>"

definition NewPieceIOWithStore :: "CarIO \<Rightarrow> FileStore \<Rightarrow> Blockstore \<Rightarrow> pieceIOWithStore" where
  "NewPieceIOWithStore c s b = \<lparr>carIO = c, bs = b, store = s\<rparr>"

subsection \<open>Effects\<close>

text \<open>
  Each function returns, beside its result, the calls with a side effect that it made, in
  the order of the source. \<open>Go_Dump\<close> is the start of the producer goroutine and
  \<open>Call_stop_Wait\<close> is \<open>stop.Wait()\<close>, the only point where the caller waits for it.
\<close>

datatype io_effect =
    Call_PrepareCar
  | Call_os_Pipe
  | Go_Dump
  | Call_GeneratePieceCommitment
  | Call_r_Close
  | Call_stop_Wait
  | Call_CreateTemp
  | Call_WriteCar
  | Call_Seek
  | Call_f_Close path
  | Call_Delete path

subsection \<open>The functions\<close>

definition GeneratePieceCommitment ::
  "Externals \<Rightarrow> RegisteredSealProof \<Rightarrow> byte list \<Rightarrow> 64 word \<Rightarrow> err + (cid \<times> 64 word)" where
  "GeneratePieceCommitment x rt rd pieceSize =
     (case padreader_New x rd pieceSize of
        (paddedReader, paddedSize) \<Rightarrow>
          (case GeneratePieceCIDFromFile x rt paddedReader paddedSize of
             Inl e \<Rightarrow> Inl e
           | Inr commitment \<Rightarrow> Inr (commitment, paddedSize)))"

text \<open>
  The producer goroutine of the streaming mode: \<open>werr = preparedCar.Dump(w)\<close>, then
  \<open>w.Close()\<close>, whose error is kept only when \<open>Dump\<close> had none.
\<close>

definition producer :: "PreparedCar \<Rightarrow> Pipe \<Rightarrow> byte list \<times> err option" where
  "producer preparedCar p =
     (case Dump preparedCar of
        (written, werr) \<Rightarrow>
          (written, (case werr of None \<Rightarrow> w_Close p | Some e \<Rightarrow> Some e)))"

definition pieceIO_GeneratePieceCommitment ::
  "Externals \<Rightarrow> 'a pieceIO_scheme \<Rightarrow> RegisteredSealProof \<Rightarrow> cid \<Rightarrow> ipld_Node
     \<Rightarrow> (err + (cid \<times> 64 word)) \<times> io_effect list" where
  "pieceIO_GeneratePieceCommitment x pio rt payloadCid selector =
     (case PrepareCar (carIO pio) (bs pio) payloadCid selector of
        Inl e \<Rightarrow> (Inl e, [Call_PrepareCar])
      | Inr preparedCar \<Rightarrow>
          (let pieceSize = Size preparedCar in
           case os_Pipe x of
             Inl e \<Rightarrow> (Inl e, [Call_PrepareCar, Call_os_Pipe])
           | Inr p \<Rightarrow>
               (case producer preparedCar p of
                  (piped, werr) \<Rightarrow>
                    (case GeneratePieceCommitment x rt piped pieceSize of
                       Inl e \<Rightarrow>
                         (Inl e, [Call_PrepareCar, Call_os_Pipe, Go_Dump,
                                  Call_GeneratePieceCommitment, Call_r_Close])
                     | Inr (commitment, paddedSize) \<Rightarrow>
                         (case r_Close p of
                            Some closeErr \<Rightarrow>
                              (Inl closeErr, [Call_PrepareCar, Call_os_Pipe, Go_Dump,
                                  Call_GeneratePieceCommitment, Call_r_Close])
                          | None \<Rightarrow>
                              (case werr of
                                 Some e \<Rightarrow>
                                   (Inl e, [Call_PrepareCar, Call_os_Pipe, Go_Dump,
                                      Call_GeneratePieceCommitment, Call_r_Close,
                                      Call_stop_Wait])
                               | None \<Rightarrow>
                                   (Inr (commitment, paddedSize),
                                    [Call_PrepareCar, Call_os_Pipe, Go_Dump,
                                      Call_GeneratePieceCommitment, Call_r_Close,
                                      Call_stop_Wait])))))))"

text \<open>The closure \<open>cleanup\<close>: \<open>f.Close()\<close>, then \<open>pio.store.Delete(f.Path())\<close>, both results dropped.\<close>

definition cleanup :: "File \<Rightarrow> io_effect list" where
  "cleanup f = [Call_f_Close (Path f), Call_Delete (Path f)]"

definition GeneratePieceCommitmentToFile ::
  "Externals \<Rightarrow> pieceIOWithStore \<Rightarrow> RegisteredSealProof \<Rightarrow> cid \<Rightarrow> ipld_Node
     \<Rightarrow> OnNewCarBlockFunc list \<Rightarrow> (err + (cid \<times> path \<times> 64 word)) \<times> io_effect list" where
  "GeneratePieceCommitmentToFile x pio rt payloadCid selector userOnNewCarBlocks =
     (case CreateTemp (store pio) of
        Inl e \<Rightarrow> (Inl e, [Call_CreateTemp])
      | Inr f \<Rightarrow>
          (case WriteCar (carIO pio) (bs pio) payloadCid selector userOnNewCarBlocks of
             (written, Some e) \<Rightarrow> (Inl e, [Call_CreateTemp, Call_WriteCar] @ cleanup f)
           | (written, None) \<Rightarrow>
               (let pieceSize = (word_of_nat (length written) :: 64 word) in
                case Seek f of
                  Some e \<Rightarrow> (Inl e, [Call_CreateTemp, Call_WriteCar, Call_Seek] @ cleanup f)
                | None \<Rightarrow>
                    (case GeneratePieceCommitment x rt written pieceSize of
                       Inl e \<Rightarrow>
                         (Inl e, [Call_CreateTemp, Call_WriteCar, Call_Seek,
                                  Call_GeneratePieceCommitment] @ cleanup f)
                     | Inr (commitment, paddedSize) \<Rightarrow>
                         (Inr (commitment, Path f, paddedSize),
                          [Call_CreateTemp, Call_WriteCar, Call_Seek,
                           Call_GeneratePieceCommitment, Call_f_Close (Path f)])))))"

section \<open>Package storageimpl: the storage client\<close>

subsection \<open>Data\<close>

type_synonym address = string
type_synonym peer_ID = string
type_synonym TokenAmount = int
type_synonym ChainEpoch = int
type_synonym RegisteredProof = int

text \<open>
  Of the structures declared in other packages, the fields that the client reads or writes.
  The pointers \<open>info\<close> and \<open>data\<close> that \<open>ProposeStorageDeal\<close> receives are taken to be non-nil.
\<close>

record StorageProviderInfo =
  Address :: address
  Worker :: address
  PeerID :: peer_ID

record DataRef =
  Root :: cid

record DealProposal =
  PieceCID :: cid
  PieceSize :: "64 word"
  Client :: address
  Provider :: address
  StartEpoch :: ChainEpoch
  EndEpoch :: ChainEpoch
  StoragePricePerEpoch :: TokenAmount
  ProviderCollateral :: TokenAmount
  ClientCollateral :: TokenAmount

record ClientDealProposal =
  Proposal :: DealProposal
  ClientSignature :: string

datatype StorageDealStatus = StorageDealUnknown | StorageDealStatus nat

datatype ClientEvent = ClientEventOpen | ClientEvent nat

record ClientDeal =
  ProposalCid :: cid
  ClientDealProposal :: ClientDealProposal
  State :: StorageDealStatus
  Miner :: peer_ID
  MinerWorker :: address
  DataRef :: DataRef

record ProposeStorageDealResult =
  ProposalCid :: cid

record RetrievalPeer =
  Address :: address
  ID :: peer_ID

record StorageAsk =
  Miner :: address
  Price :: TokenAmount

record SignedStorageAsk =
  Ask :: StorageAsk
  Signature :: string

record AskRequest =
  Miner :: address

record AskResponse =
  Ask :: "SignedStorageAsk option"

subsection \<open>Collaborators\<close>

text \<open>
  The network, the chain node, the local discovery and the functions of other packages are
  parameters: each method is the result it gives. A deal stream is known by an identity
  and by the result of its \<open>Close\<close>.
\<close>

record StorageAskStream =
  WriteAskRequest :: "AskRequest \<Rightarrow> err option"
  ReadAskResponse :: "err + AskResponse"

record StorageDealStream =
  stream_id :: nat
  Close :: "err option"

record StorageMarketNetwork =
  NewAskStream :: "peer_ID \<Rightarrow> err + StorageAskStream"
  NewDealStream :: "peer_ID \<Rightarrow> err + StorageDealStream"

record StorageClientNode =
  SignProposal :: "address \<Rightarrow> DealProposal \<Rightarrow> err + ClientDealProposal"
  ValidateAskSignature :: "SignedStorageAsk \<Rightarrow> err option"

record Local =
  AddPeer :: "cid \<Rightarrow> RetrievalPeer \<Rightarrow> err option"

type_synonym PieceIO = "RegisteredProof \<Rightarrow> cid \<Rightarrow> ipld_Node \<Rightarrow> err + (cid \<times> 64 word)"

text \<open>
  \<open>clientutils.CommP\<close>, \<open>cborutil.AsIpld\<close> (of which only the identifier of the node is
  used), \<open>UnpaddedPieceSize.Padded\<close> and the transition table \<open>clientstates.ClientEvents\<close>
  (from an event and the current state to the next state, \<open>None\<close> where the event is not
  enabled).
\<close>

record Packages =
  CommP :: "PieceIO \<Rightarrow> RegisteredProof \<Rightarrow> DataRef \<Rightarrow> err + (cid \<times> 64 word)"
  AsIpld :: "ClientDealProposal \<Rightarrow> err + cid"
  Padded :: "64 word \<Rightarrow> 64 word"
  ClientEvents :: "ClientEvent \<Rightarrow> StorageDealStatus \<Rightarrow> StorageDealStatus option"

subsection \<open>Effects and the client\<close>

datatype effect =
    Call_CommP
  | Call_SignProposal address DealProposal
  | Call_AsIpld
  | Call_Begin cid ClientDeal
  | Call_NewDealStream peer_ID
  | Put_conns cid StorageDealStream
  | Call_Send cid ClientEvent
  | Call_DealStream cid "err + StorageDealStream"
  | Call_Close StorageDealStream
  | Call_AddPeer cid RetrievalPeer
  | Call_NewAskStream peer_ID
  | Call_WriteAskRequest AskRequest
  | Call_ReadAskResponse
  | Call_ValidateAskSignature SignedStorageAsk

text \<open>
  The records of the state machine engine are kept in the order of their registration.
  \<open>trace\<close> is not a field of the source: it collects the calls made, in order.
\<close>

type_synonym Group = "(cid \<times> ClientDeal) list"

record Client =
  net :: StorageMarketNetwork
  pio :: PieceIO
  discovery :: Local
  node :: StorageClientNode
  statemachines :: Group
  conns :: "cid \<rightharpoonup> StorageDealStream"
  trace :: "effect list"

definition log :: "effect \<Rightarrow> Client \<Rightarrow> Client" where
  "log e c = c\<lparr>trace := trace c @ [e]\<rparr>"

definition NewTokenAmount :: "64 word \<Rightarrow> TokenAmount" where
  \<comment> \<open>\<open>abi.NewTokenAmount(int64(v))\<close>: the big integer of the signed reading of \<open>v\<close>\<close>
  "NewTokenAmount v = sint v"

subsection \<open>The connection registry\<close>

definition DealStream :: "Client \<Rightarrow> cid \<Rightarrow> err + StorageDealStream" where
  "DealStream c proposalCid =
     (case conns c proposalCid of
        Some s \<Rightarrow> Inr s
      | None \<Rightarrow> Inl ''no connection to provider'')"

definition CloseStream :: "Client \<Rightarrow> cid \<Rightarrow> Client \<times> err option" where
  "CloseStream c proposalCid =
     (case conns c proposalCid of
        None \<Rightarrow> (c, None)
      | Some s \<Rightarrow>
          (let err = StorageDealStream.Close s
           in ((log (Call_Close s) c)\<lparr>conns := (conns c)(proposalCid := None)\<rparr>, err)))"

text \<open>\<open>c.conns[deal.ProposalCid] = s\<close> under the lock, as in \<open>ProposeStorageDeal\<close>.\<close>

definition conns_put :: "Client \<Rightarrow> cid \<Rightarrow> StorageDealStream \<Rightarrow> Client" where
  "conns_put c proposalCid s = (log (Put_conns proposalCid s) c)\<lparr>conns := (conns c)(proposalCid \<mapsto> s)\<rparr>"

subsection \<open>The state machine engine\<close>

text \<open>
  Modelled from the spec: the state machine engine (\<open>fsm.Group\<close>), whose code is not among the
  sources here. \<open>Begin\<close> registers a new record under an identifier and fails if the identifier
  already exists. \<open>Send\<close> looks the deal up, checks that the event is enabled from the
  current state of the record, runs the handler, which looks up the stream of the deal in
  the registry, applies the change of state and stores the record; it fails, changing
  nothing, if the identifier is unknown or the event is not enabled. \<open>Get\<close> and \<open>List\<close> read
  one record or all of them.
\<close>

definition Begin :: "Group \<Rightarrow> cid \<Rightarrow> ClientDeal \<Rightarrow> err + Group" where
  "Begin g i d =
     (case map_of g i of
        Some _ \<Rightarrow> Inl ''already tracking state''
      | None \<Rightarrow> Inr (g @ [(i, d)]))"

definition Send :: "Packages \<Rightarrow> Client \<Rightarrow> cid \<Rightarrow> ClientEvent \<Rightarrow> Client \<times> err option" where
  "Send x c i ev =
     (case map_of (statemachines c) i of
        None \<Rightarrow> (c, Some ''unknown deal'')
      | Some d \<Rightarrow>
          (case ClientEvents x ev (State d) of
             None \<Rightarrow> (c, Some ''event not enabled'')
           | Some next \<Rightarrow>
               ((log (Call_DealStream i (DealStream c i)) c)
                  \<lparr>statemachines := AList.update i (d\<lparr>State := next\<rparr>) (statemachines c)\<rparr>,
                None)))"

definition ListInProgressDeals :: "Client \<Rightarrow> err + ClientDeal list" where
  "ListInProgressDeals c = Inr (map snd (statemachines c))"

definition GetInProgressDeal :: "Client \<Rightarrow> cid \<Rightarrow> err + ClientDeal" where
  "GetInProgressDeal c i =
     (case map_of (statemachines c) i of
        None \<Rightarrow> Inl ''not found''
      | Some out \<Rightarrow> Inr out)"

subsection \<open>The operations of the client\<close>

definition GetAsk :: "Client \<Rightarrow> StorageProviderInfo \<Rightarrow> Client \<times> (err + SignedStorageAsk)" where
  "GetAsk c info =
     (let c1 = log (Call_NewAskStream (PeerID info)) c in
      case NewAskStream (net c) (PeerID info) of
        Inl e \<Rightarrow> (c1, Inl (''failed to open stream to miner: '' @ e))
      | Inr s \<Rightarrow>
          (let request = \<lparr>AskRequest.Miner = StorageProviderInfo.Address info\<rparr>;
               c2 = log (Call_WriteAskRequest request) c1 in
           case WriteAskRequest s request of
             Some e \<Rightarrow> (c2, Inl (''failed to send ask request: '' @ e))
           | None \<Rightarrow>
               (let c3 = log Call_ReadAskResponse c2 in
                case ReadAskResponse s of
                  Inl e \<Rightarrow> (c3, Inl (''failed to read ask response: '' @ e))
                | Inr out \<Rightarrow>
                    (case AskResponse.Ask out of
                       None \<Rightarrow> (c3, Inl ''got no ask back'')
                     | Some a \<Rightarrow>
                         if StorageAsk.Miner (SignedStorageAsk.Ask a) \<noteq> StorageProviderInfo.Address info
                         then (c3, Inl ''got back ask for wrong miner'')
                         else
                           (let c4 = log (Call_ValidateAskSignature a) c3 in
                            case ValidateAskSignature (node c) a of
                              Some e \<Rightarrow> (c4, Inl ''ask was not properly signed'')
                            | None \<Rightarrow> (c4, Inr a))))))"

text \<open>The literal \<open>market.DealProposal{...}\<close> and the literal \<open>&storagemarket.ClientDeal{...}\<close>.\<close>

definition dealProposal ::
  "Packages \<Rightarrow> cid \<Rightarrow> 64 word \<Rightarrow> address \<Rightarrow> StorageProviderInfo \<Rightarrow> ChainEpoch \<Rightarrow> ChainEpoch
     \<Rightarrow> TokenAmount \<Rightarrow> DealProposal" where
  "dealProposal x commP pieceSize addr info startEpoch endEpoch price =
     \<lparr>PieceCID = commP,
      PieceSize = Padded x pieceSize,
      Client = addr,
      Provider = StorageProviderInfo.Address info,
      StartEpoch = startEpoch,
      EndEpoch = endEpoch,
      StoragePricePerEpoch = price,
      ProviderCollateral = NewTokenAmount pieceSize,
      ClientCollateral = 0\<rparr>"

definition deal :: "cid \<Rightarrow> ClientDealProposal \<Rightarrow> StorageProviderInfo \<Rightarrow> DataRef \<Rightarrow> ClientDeal" where
  "deal proposalNd clientDealProposal info data =
     \<lparr>ClientDeal.ProposalCid = proposalNd,
      ClientDealProposal = clientDealProposal,
      State = StorageDealUnknown,
      ClientDeal.Miner = PeerID info,
      MinerWorker = Worker info,
      DataRef = data\<rparr>"

definition ProposeStorageDeal ::
  "Packages \<Rightarrow> Client \<Rightarrow> address \<Rightarrow> StorageProviderInfo \<Rightarrow> DataRef \<Rightarrow> ChainEpoch \<Rightarrow> ChainEpoch
     \<Rightarrow> TokenAmount \<Rightarrow> TokenAmount \<Rightarrow> RegisteredProof
     \<Rightarrow> Client \<times> ProposeStorageDealResult option \<times> err option" where
  "ProposeStorageDeal x c addr info data startEpoch endEpoch price collateral rt =
     (let c1 = log Call_CommP c in
      case CommP x (pio c) rt data of
        Inl e \<Rightarrow> (c1, None, Some (''computing commP failed: '' @ e))
      | Inr (commP, pieceSize) \<Rightarrow>
          (let p = dealProposal x commP pieceSize addr info startEpoch endEpoch price;
               c2 = log (Call_SignProposal addr p) c1 in
           case SignProposal (node c) addr p of
             Inl e \<Rightarrow> (c2, None, Some (''signing deal proposal failed: '' @ e))
           | Inr clientDealProposal \<Rightarrow>
               (let c3 = log Call_AsIpld c2 in
                case AsIpld x clientDealProposal of
                  Inl e \<Rightarrow> (c3, None, Some (''getting proposal node failed: '' @ e))
                | Inr proposalNd \<Rightarrow>
                    (let d = deal proposalNd clientDealProposal info data;
                         c4 = log (Call_Begin proposalNd d) c3 in
                     case Begin (statemachines c4) proposalNd d of
                       Inl e \<Rightarrow> (c4, None, Some (''setting up deal tracking: '' @ e))
                     | Inr g \<Rightarrow>
                         (let c5 = log (Call_NewDealStream (PeerID info)) (c4\<lparr>statemachines := g\<rparr>) in
                          case NewDealStream (net c) (PeerID info) of
                            Inl e \<Rightarrow>
                              (c5, None, Some (''connecting to storage provider failed: '' @ e))
                          | Inr s \<Rightarrow>
                              (let c6 = conns_put c5 (ClientDeal.ProposalCid d) s;
                                   c7 = log (Call_Send (ClientDeal.ProposalCid d) ClientEventOpen) c6 in
                               case Send x c7 (ClientDeal.ProposalCid d) ClientEventOpen of
                                 (c8, Some e) \<Rightarrow>
                                   (c8, None, Some (''initializing state machine: '' @ e))
                               | (c8, None) \<Rightarrow>
                                   (let peer = \<lparr>RetrievalPeer.Address = Provider p,
                                                ID = ClientDeal.Miner d\<rparr>
                                    in (log (Call_AddPeer (Root data) peer) c8,
                                        Some \<lparr>ProposeStorageDealResult.ProposalCid = ClientDeal.ProposalCid d\<rparr>,
                                        AddPeer (discovery c) (Root data) peer))))))))"

subsection \<open>Sequences of operations on the registry\<close>

datatype registry_op =
    Op_put cid StorageDealStream
  | Op_DealStream cid
  | Op_CloseStream cid

fun registry_step :: "Client \<Rightarrow> registry_op \<Rightarrow> Client" where
  "registry_step c (Op_put i s) = conns_put c i s"
| "registry_step c (Op_DealStream i) = c"
| "registry_step c (Op_CloseStream i) = fst (CloseStream c i)"

fun registry_run :: "Client \<Rightarrow> registry_op list \<Rightarrow> Client" where
  "registry_run c [] = c"
| "registry_run c (a # as) = registry_run (registry_step c a) as"

fun registers :: "cid \<Rightarrow> registry_op \<Rightarrow> bool" where
  "registers i (Op_put j s) = (i = j)"
| "registers i (Op_DealStream j) = False"
| "registers i (Op_CloseStream j) = False"

section \<open>Auxiliary definitions for the statements\<close>

text \<open>The calls made between a state of the client and a later one.\<close>

definition calls :: "Client \<Rightarrow> Client \<Rightarrow> effect list" where
  "calls c c' = drop (length (trace c)) (trace c')"

text \<open>
  The states of the client inside \<open>ProposeStorageDeal\<close>: when \<open>Begin\<close> is called, and when
  \<open>Send\<close> is called (the engine then holds the records \<open>g\<close> and the registry the stream \<open>s\<close>).
\<close>

definition at_Begin :: "Client \<Rightarrow> address \<Rightarrow> DealProposal \<Rightarrow> cid \<Rightarrow> ClientDeal \<Rightarrow> Client" where
  "at_Begin c addr p i d =
     log (Call_Begin i d) (log Call_AsIpld (log (Call_SignProposal addr p) (log Call_CommP c)))"

definition at_Send ::
  "Client \<Rightarrow> address \<Rightarrow> StorageProviderInfo \<Rightarrow> DealProposal \<Rightarrow> cid \<Rightarrow> ClientDeal \<Rightarrow> Group
     \<Rightarrow> StorageDealStream \<Rightarrow> Client" where
  "at_Send c addr info p i d g s =
     log (Call_Send i ClientEventOpen)
       (conns_put (log (Call_NewDealStream (PeerID info))
          ((at_Begin c addr p i d)\<lparr>statemachines := g\<rparr>)) i s)"

text \<open>The method \<open>GeneratePieceCommitment\<close> of a \<open>pieceIO\<close>, as the interface value held by a client.\<close>

definition PieceIO_of :: "Externals \<Rightarrow> pieceIO \<Rightarrow> PieceIO" where
  "PieceIO_of x p =
     (\<lambda>rt payloadCid selector. fst (pieceIO_GeneratePieceCommitment x p rt payloadCid selector))"

section \<open>Example environments\<close>

text \<open>
  An archive of three bytes; an encoder that loses a block after two bytes; a padding to
  127 bytes; a commitment function that fails on a short stream; pipes whose ends close
  without error, whose write end fails to close, or whose read end fails to close.
\<close>

definition ex_car :: CarIO where
  "ex_car =
     \<lparr>WriteCar = (\<lambda>_ _ _ _. ([1, 2, 3], None)),
      PrepareCar = (\<lambda>_ _ _. Inr \<lparr>Size = 3, Dump = ([1, 2, 3], None)\<rparr>)\<rparr>"

definition ex_car_broken :: CarIO where
  "ex_car_broken =
     \<lparr>WriteCar = (\<lambda>_ _ _ _. ([1, 2], Some ''block not found'')),
      PrepareCar = (\<lambda>_ _ _. Inr \<lparr>Size = 3, Dump = ([1, 2], Some ''block not found'')\<rparr>)\<rparr>"

definition ex_padreader :: "byte list \<Rightarrow> 64 word \<Rightarrow> byte list \<times> 64 word" where
  "ex_padreader rd n = (take (unat n) rd @ replicate (127 - unat n) 0, 127)"

definition ex_commit :: "RegisteredSealProof \<Rightarrow> byte list \<Rightarrow> 64 word \<Rightarrow> err + cid" where
  "ex_commit rt rd n = (if length rd = unat n then Inr (Cid (length rd)) else Inl ''short read'')"

definition ex_ext :: Externals where
  "ex_ext =
     \<lparr>padreader_New = ex_padreader,
      GeneratePieceCIDFromFile = ex_commit,
      os_Pipe = Inr \<lparr>r_Close = None, w_Close = None\<rparr>\<rparr>"

definition ex_ext_w :: Externals where
  "ex_ext_w =
     \<lparr>padreader_New = ex_padreader,
      GeneratePieceCIDFromFile = ex_commit,
      os_Pipe = Inr \<lparr>r_Close = None, w_Close = Some ''file already closed''\<rparr>\<rparr>"

definition ex_ext_r :: Externals where
  "ex_ext_r =
     \<lparr>padreader_New = ex_padreader,
      GeneratePieceCIDFromFile = ex_commit,
      os_Pipe = Inr \<lparr>r_Close = Some ''bad file descriptor'', w_Close = None\<rparr>\<rparr>"

definition ex_store :: FileStore where
  "ex_store =
     \<lparr>CreateTemp = Inr \<lparr>Path = ''fstmp657539688'', Seek = None, Close = Some ''close failed''\<rparr>,
      Delete = (\<lambda>_. Some ''delete failed'')\<rparr>"

definition ex_pio :: pieceIOWithStore where
  "ex_pio = NewPieceIOWithStore ex_car ex_store Map.empty"

definition ex_pio_broken :: pieceIOWithStore where
  "ex_pio_broken = NewPieceIOWithStore ex_car_broken ex_store Map.empty"

text \<open>
  A client on a network with three peers: \<open>peerA\<close> answers and signs its asks, \<open>peerB\<close>
  answers with a signature that does not validate, \<open>peerX\<close> cannot be dialled for a deal.
  The identifier of a proposal is taken from the size of its piece, and the padded size of
  \<open>s\<close> is \<open>s + s div 127\<close>.
\<close>

definition ex_packages :: Packages where
  "ex_packages =
     \<lparr>CommP = (\<lambda>p rt data. p rt (Root data) 0),
      AsIpld = (\<lambda>cdp. Inr (Cid (unat (PieceSize (Proposal cdp))))),
      Padded = (\<lambda>s. s + s div 127),
      ClientEvents = (\<lambda>ev st. if ev = ClientEventOpen \<and> st = StorageDealUnknown
                               then Some (StorageDealStatus 1) else None)\<rparr>"

definition ex_stream :: StorageDealStream where
  "ex_stream = \<lparr>stream_id = 1, Close = Some ''stream reset''\<rparr>"

definition ex_net :: StorageMarketNetwork where
  "ex_net =
     \<lparr>NewAskStream = (\<lambda>p. Inr
         \<lparr>WriteAskRequest = (\<lambda>_. None),
          ReadAskResponse = Inr \<lparr>AskResponse.Ask =
             Some \<lparr>SignedStorageAsk.Ask = \<lparr>StorageAsk.Miner = ''t01000'', Price = 5\<rparr>,
                   Signature = p\<rparr>\<rparr>\<rparr>),
      NewDealStream = (\<lambda>p. if p = ''peerX'' then Inl ''dial failed'' else Inr ex_stream)\<rparr>"

definition ex_node :: StorageClientNode where
  "ex_node =
     \<lparr>SignProposal = (\<lambda>a p. Inr \<lparr>Proposal = p, ClientSignature = a\<rparr>),
      ValidateAskSignature =
        (\<lambda>a. if Signature a = ''peerA'' then None else Some ''invalid signature'')\<rparr>"

definition ex_client :: Client where
  "ex_client =
     \<lparr>net = ex_net, pio = PieceIO_of ex_ext (NewPieceIO ex_car Map.empty),
      discovery = \<lparr>AddPeer = (\<lambda>_ _. None)\<rparr>, node = ex_node,
      statemachines = [], conns = Map.empty, trace = []\<rparr>"

definition ex_client_broken :: Client where
  "ex_client_broken = ex_client\<lparr>pio := PieceIO_of ex_ext (NewPieceIO ex_car_broken Map.empty)\<rparr>"

definition ex_info :: "address \<Rightarrow> peer_ID \<Rightarrow> StorageProviderInfo" where
  "ex_info a p = \<lparr>StorageProviderInfo.Address = a, Worker = ''t01001'', PeerID = p\<rparr>"

definition ex_data :: DataRef where
  "ex_data = \<lparr>Root = Cid 1\<rparr>"

text \<open>
  The proposal of the examples, signed, and the record of the deal as it is handed to
  \<open>Begin\<close> when the proposal goes through peer \<open>p\<close>.
\<close>

definition ex_signed :: ClientDealProposal where
  "ex_signed =
     \<lparr>Proposal = dealProposal ex_packages (Cid 127) 127 ''t0100'' (ex_info ''t01000'' ''peerA'') 10 20 5,
      ClientSignature = ''t0100''\<rparr>"

definition ex_deal :: "peer_ID \<Rightarrow> ClientDeal" where
  "ex_deal p = deal (Cid 128) ex_signed (ex_info ''t01000'' p) ex_data"

text \<open>The client after a first proposal, made through \<open>peerA\<close>, has gone through.\<close>

definition ex_client_tracking :: Client where
  "ex_client_tracking =
     fst (ProposeStorageDeal ex_packages ex_client ''t0100'' (ex_info ''t01000'' ''peerA'') ex_data
            10 20 5 0 0)"

section \<open>The piece preparation pipeline\<close>

lemmas ex_defs =
  ex_car_def ex_car_broken_def ex_padreader_def ex_commit_def ex_ext_def ex_ext_w_def ex_ext_r_def
  ex_store_def
  ex_pio_def ex_pio_broken_def ex_packages_def ex_stream_def ex_net_def ex_node_def ex_client_def
  ex_client_broken_def ex_info_def ex_data_def ex_signed_def ex_deal_def
  NewPieceIO_def NewPieceIOWithStore_def PieceIO_of_def

lemmas pieceio_defs =
  pieceIO_GeneratePieceCommitment_def producer_def GeneratePieceCommitment_def
  GeneratePieceCommitmentToFile_def cleanup_def

lemmas client_defs =
  ProposeStorageDeal_def dealProposal_def deal_def Begin_def Send_def log_def conns_put_def
  DealStream_def CloseStream_def NewTokenAmount_def GetAsk_def calls_def
  GetInProgressDeal_def ListInProgressDeals_def

lemma streaming_Inr:
  assumes "fst (pieceIO_GeneratePieceCommitment x pieceio rt payloadCid selector) = Inr v"
  shows "\<exists>pc p. PrepareCar (carIO pieceio) (bs pieceio) payloadCid selector = Inr pc \<and> os_Pipe x = Inr p \<and>
      snd (Dump pc) = None \<and> w_Close p = None \<and> r_Close p = None \<and>
      GeneratePieceCommitment x rt (fst (Dump pc)) (Size pc) = Inr v"
  using assms
  by (auto simp: pieceIO_GeneratePieceCommitment_def producer_def Let_def
           split: sum.splits option.splits prod.splits)

lemma to_file_Inr:
  assumes "fst (GeneratePieceCommitmentToFile x pieceio rt payloadCid selector cbs) = Inr (c, p, n)"
  shows "\<exists>f written. CreateTemp (store pieceio) = Inr f \<and> p = Path f \<and>
      WriteCar (carIO pieceio) (bs pieceio) payloadCid selector cbs = (written, None) \<and> Seek f = None \<and>
      GeneratePieceCommitment x rt written (word_of_nat (length written)) = Inr (c, n)"
  using assms
  by (auto simp: GeneratePieceCommitmentToFile_def Let_def
           split: sum.splits option.splits prod.splits)

text \<open>
  Claim C1. Streaming mode (\<open>pieceIO.GeneratePieceCommitment\<close>) and disk-buffered mode
  (\<open>pieceIOWithStore.GeneratePieceCommitmentToFile\<close>) return the same commitment and the same
  padded size whenever both succeed, provided the prepared archive dumps exactly the bytes
  that \<open>WriteCar\<close> writes and reports their number as its size.
\<close>

theorem streaming_and_disk_modes_agree:
  assumes enc: "\<And>pc. PrepareCar (carIO pieceio) (bs pieceio) payloadCid selector = Inr pc \<Longrightarrow>
             fst (Dump pc) = fst (WriteCar (carIO pieceio) (bs pieceio) payloadCid selector cbs) \<and>
             unat (Size pc) = length (fst (WriteCar (carIO pieceio) (bs pieceio) payloadCid selector cbs))"
    and s: "fst (pieceIO_GeneratePieceCommitment x pieceio rt payloadCid selector) = Inr (c1, n1)"
    and d: "fst (GeneratePieceCommitmentToFile x pieceio rt payloadCid selector cbs) = Inr (c2, p, n2)"
  shows "c1 = c2 \<and> n1 = n2"
proof -
  from streaming_Inr [OF s] obtain pc where
    pc: "PrepareCar (carIO pieceio) (bs pieceio) payloadCid selector = Inr pc"
    and g1: "GeneratePieceCommitment x rt (fst (Dump pc)) (Size pc) = Inr (c1, n1)"
    by blast
  from to_file_Inr [OF d] obtain written where
    w: "WriteCar (carIO pieceio) (bs pieceio) payloadCid selector cbs = (written, None)"
    and g2: "GeneratePieceCommitment x rt written (word_of_nat (length written)) = Inr (c2, n2)"
    by blast
  from enc [OF pc] w have b: "fst (Dump pc) = written" and l: "unat (Size pc) = length written"
    by simp_all
  have "word_of_nat (unat (Size pc)) = Size pc" by simp
  with l have "Size pc = word_of_nat (length written)" by simp
  with g1 g2 b show ?thesis by simp
qed

theorem streaming_and_disk_modes_agree_witness:
  "fst (pieceIO_GeneratePieceCommitment ex_ext ex_pio 0 (Cid 1) 0) = Inr (Cid 127, 127) \<and>
   fst (GeneratePieceCommitmentToFile ex_ext ex_pio 0 (Cid 1) 0 []) =
     Inr (Cid 127, ''fstmp657539688'', 127) \<and>
   fst (Dump \<lparr>Size = 3, Dump = ([1, 2, 3], None)\<rparr>) =
     fst (WriteCar (carIO ex_pio) (bs ex_pio) (Cid 1) 0 []) \<and>
   Cid 127 = Cid 127 \<and> (127 :: 64 word) = 127"
proof -
  have enc: "\<And>pc. PrepareCar (carIO ex_pio) (bs ex_pio) (Cid 1) 0 = Inr pc \<Longrightarrow>
             fst (Dump pc) = fst (WriteCar (carIO ex_pio) (bs ex_pio) (Cid 1) 0 []) \<and>
             unat (Size pc) = length (fst (WriteCar (carIO ex_pio) (bs ex_pio) (Cid 1) 0 []))"
    by (auto simp: ex_defs)
  have s: "fst (pieceIO_GeneratePieceCommitment ex_ext ex_pio 0 (Cid 1) 0) = Inr (Cid 127, 127)"
    by (simp add: ex_defs pieceio_defs)
  have d: "fst (GeneratePieceCommitmentToFile ex_ext ex_pio 0 (Cid 1) 0 []) =
             Inr (Cid 127, ''fstmp657539688'', 127)"
    by (simp add: ex_defs pieceio_defs)
  from streaming_and_disk_modes_agree [OF enc s d] s d show ?thesis
    by (simp add: ex_defs)
qed

text \<open>
  Claim C2, as stated: the streaming mode succeeds only when the producer and the consumer
  both succeed; before returning, the call waits for the producer; a producer error is
  surfaced even when the consumer reported none; when both fail, the error of the consumer
  is the one reported. The call does not wait before every return: when the consumer fails
  (here on a short stream, the producer having failed too) the error of the consumer is
  returned after the read end is closed, and \<open>stop.Wait()\<close> is never reached although the
  producer was started.
\<close>

theorem streaming_returns_without_waiting:
  "pieceIO_GeneratePieceCommitment ex_ext ex_pio_broken 0 (Cid 1) 0 =
     (Inl ''short read'',
      [Call_PrepareCar, Call_os_Pipe, Go_Dump, Call_GeneratePieceCommitment, Call_r_Close]) \<and>
   Go_Dump \<in> set (snd (pieceIO_GeneratePieceCommitment ex_ext ex_pio_broken 0 (Cid 1) 0)) \<and>
   Call_stop_Wait \<notin> set (snd (pieceIO_GeneratePieceCommitment ex_ext ex_pio_broken 0 (Cid 1) 0))"
  by (simp add: ex_defs pieceio_defs)

text \<open>
  Claim C2, amended. Once the producer and the consumer are started: the call succeeds
  only when the dump, the close of the write end, the consumer and the close of the read
  end all succeed; when the consumer and the close of the read end report no error the
  call waits for the producer before returning, and an error of the producer is then the
  result; when the consumer fails its error is the result, whatever the producer did; when
  the consumer succeeds and the close of the read end fails, the error of that close is the
  result; and when the consumer or the close of the read end fails the call returns
  without waiting, the close of the read end being its last call.
\<close>

theorem streaming_joint_success:
  assumes pc: "PrepareCar (carIO pieceio) (bs pieceio) payloadCid selector = Inr pc"
    and pp: "os_Pipe x = Inr p"
    and run: "pieceIO_GeneratePieceCommitment x pieceio rt payloadCid selector = (res, tr)"
  shows "(res = Inr v \<longrightarrow>
            snd (Dump pc) = None \<and> w_Close p = None \<and> r_Close p = None \<and>
            GeneratePieceCommitment x rt (fst (Dump pc)) (Size pc) = Inr v) \<and>
         (GeneratePieceCommitment x rt (fst (Dump pc)) (Size pc) = Inr v \<and> r_Close p = None \<longrightarrow>
            Call_stop_Wait \<in> set tr \<and>
            tr = [Call_PrepareCar, Call_os_Pipe, Go_Dump, Call_GeneratePieceCommitment,
                  Call_r_Close, Call_stop_Wait] \<and>
            (snd (producer pc p) = Some e \<longrightarrow> res = Inl e) \<and>
            (snd (producer pc p) = None \<longrightarrow> res = Inr v)) \<and>
         (GeneratePieceCommitment x rt (fst (Dump pc)) (Size pc) = Inl e \<longrightarrow> res = Inl e) \<and>
         (GeneratePieceCommitment x rt (fst (Dump pc)) (Size pc) = Inr v \<and>
          r_Close p = Some closeErr \<longrightarrow> res = Inl closeErr) \<and>
         (GeneratePieceCommitment x rt (fst (Dump pc)) (Size pc) = Inl e \<or> r_Close p \<noteq> None \<longrightarrow>
            Call_stop_Wait \<notin> set tr \<and>
            tr = [Call_PrepareCar, Call_os_Pipe, Go_Dump, Call_GeneratePieceCommitment,
                  Call_r_Close])"
  using assms
  by (auto simp: pieceIO_GeneratePieceCommitment_def producer_def Let_def
           split: sum.splits option.splits prod.splits)

theorem streaming_joint_success_witness:
  "pieceIO_GeneratePieceCommitment ex_ext_w ex_pio 0 (Cid 1) 0 =
     (Inl ''file already closed'',
      [Call_PrepareCar, Call_os_Pipe, Go_Dump, Call_GeneratePieceCommitment, Call_r_Close,
       Call_stop_Wait]) \<and>
   GeneratePieceCommitment ex_ext_w 0 [1, 2, 3] 3 = Inr (Cid 127, 127) \<and>
   snd (producer \<lparr>Size = 3, Dump = ([1, 2, 3], None)\<rparr>
          \<lparr>r_Close = None, w_Close = Some ''file already closed''\<rparr>) = Some ''file already closed'' \<and>
   fst (pieceIO_GeneratePieceCommitment ex_ext ex_pio_broken 0 (Cid 1) 0) = Inl ''short read'' \<and>
   GeneratePieceCommitment ex_ext 0 [1, 2] 3 = Inl ''short read'' \<and>
   snd (producer \<lparr>Size = 3, Dump = ([1, 2], Some ''block not found'')\<rparr>
          \<lparr>r_Close = None, w_Close = None\<rparr>) = Some ''block not found'' \<and>
   Call_stop_Wait \<notin> set (snd (pieceIO_GeneratePieceCommitment ex_ext ex_pio_broken 0 (Cid 1) 0)) \<and>
   GeneratePieceCommitment ex_ext_r 0 [1, 2, 3] 3 = Inr (Cid 127, 127) \<and>
   pieceIO_GeneratePieceCommitment ex_ext_r ex_pio 0 (Cid 1) 0 =
     (Inl ''bad file descriptor'',
      [Call_PrepareCar, Call_os_Pipe, Go_Dump, Call_GeneratePieceCommitment, Call_r_Close])"
proof -
  have pc1: "PrepareCar (carIO ex_pio) (bs ex_pio) (Cid 1) 0 = Inr \<lparr>Size = 3, Dump = ([1, 2, 3], None)\<rparr>"
    by (simp add: ex_defs)
  have pp1: "os_Pipe ex_ext_w = Inr \<lparr>r_Close = None, w_Close = Some ''file already closed''\<rparr>"
    by (simp add: ex_defs)
  have run1: "pieceIO_GeneratePieceCommitment ex_ext_w ex_pio 0 (Cid 1) 0 =
     (Inl ''file already closed'',
      [Call_PrepareCar, Call_os_Pipe, Go_Dump, Call_GeneratePieceCommitment, Call_r_Close,
       Call_stop_Wait])"
    by (simp add: ex_defs pieceio_defs)
  have g1: "GeneratePieceCommitment ex_ext_w 0 [1, 2, 3] 3 = Inr (Cid 127, 127)"
    by (simp add: ex_defs pieceio_defs)
  have pc2: "PrepareCar (carIO ex_pio_broken) (bs ex_pio_broken) (Cid 1) 0 =
               Inr \<lparr>Size = 3, Dump = ([1, 2], Some ''block not found'')\<rparr>"
    by (simp add: ex_defs)
  have pp2: "os_Pipe ex_ext = Inr \<lparr>r_Close = None, w_Close = None\<rparr>"
    by (simp add: ex_defs)
  have g2: "GeneratePieceCommitment ex_ext 0 [1, 2] 3 = Inl ''short read''"
    by (simp add: ex_defs pieceio_defs)
  have run2: "pieceIO_GeneratePieceCommitment ex_ext ex_pio_broken 0 (Cid 1) 0 =
     (fst (pieceIO_GeneratePieceCommitment ex_ext ex_pio_broken 0 (Cid 1) 0),
      snd (pieceIO_GeneratePieceCommitment ex_ext ex_pio_broken 0 (Cid 1) 0))"
    by simp
  have pp3: "os_Pipe ex_ext_r = Inr \<lparr>r_Close = Some ''bad file descriptor'', w_Close = None\<rparr>"
    by (simp add: ex_defs)
  have g3: "GeneratePieceCommitment ex_ext_r 0 [1, 2, 3] 3 = Inr (Cid 127, 127)"
    by (simp add: ex_defs pieceio_defs)
  have run3: "pieceIO_GeneratePieceCommitment ex_ext_r ex_pio 0 (Cid 1) 0 =
     (fst (pieceIO_GeneratePieceCommitment ex_ext_r ex_pio 0 (Cid 1) 0),
      snd (pieceIO_GeneratePieceCommitment ex_ext_r ex_pio 0 (Cid 1) 0))"
    by simp
  from streaming_joint_success [OF pc1 pp1 run1, where v = "(Cid 127, 127)"
         and e = "''file already closed''" and closeErr = "''bad file descriptor''"]
       streaming_joint_success [OF pc2 pp2 run2, where v = "(Cid 127, 127)"
         and e = "''short read''" and closeErr = "''bad file descriptor''"]
       streaming_joint_success [OF pc1 pp3 run3, where v = "(Cid 127, 127)"
         and e = "''short read''" and closeErr = "''bad file descriptor''"]
       run1 g1 g2 g3
  show ?thesis by (simp add: producer_def prod_eq_iff)
qed

text \<open>
  Claim C3. In disk-buffered mode, once the temporary file exists, every failure (of the
  archive write, of the seek, of the commitment) ends with \<open>f.Close()\<close> and
  \<open>store.Delete(f.Path())\<close> as the last two calls before the error is returned, and the
  error returned is that primary error; on success the file is closed, not deleted, and
  its path is returned. The results of \<open>f.Close()\<close> and \<open>store.Delete\<close> never reach the
  caller: whatever they are, the value returned is the same.
\<close>

theorem to_file_cleanup:
  assumes tmp: "CreateTemp (store pieceio) = Inr f"
    and run: "GeneratePieceCommitmentToFile x pieceio rt payloadCid selector cbs = (res, tr)"
    and w: "WriteCar (carIO pieceio) (bs pieceio) payloadCid selector cbs = (written, werr)"
  shows "(res = Inl e \<longrightarrow>
            (\<exists>before. tr = before @ [Call_f_Close (Path f), Call_Delete (Path f)]) \<and>
            (werr = Some e \<or>
             werr = None \<and> Seek f = Some e \<or>
             werr = None \<and> Seek f = None \<and>
               GeneratePieceCommitment x rt written (word_of_nat (length written)) = Inl e)) \<and>
         (res = Inr (c, p, n) \<longrightarrow>
            p = Path f \<and> Call_Delete (Path f) \<notin> set tr \<and> last tr = Call_f_Close (Path f)) \<and>
         fst (GeneratePieceCommitmentToFile x
                (pieceio\<lparr>store := \<lparr>CreateTemp = Inr (f\<lparr>File.Close := closeResult\<rparr>),
                                Delete = deleteResult\<rparr>\<rparr>)
                rt payloadCid selector cbs) = res"
  using assms
  by (auto simp: GeneratePieceCommitmentToFile_def cleanup_def Let_def
           split: sum.splits option.splits prod.splits)

theorem to_file_cleanup_witness:
  "GeneratePieceCommitmentToFile ex_ext ex_pio_broken 0 (Cid 1) 0 [] =
     (Inl ''block not found'',
      [Call_CreateTemp, Call_WriteCar,
       Call_f_Close ''fstmp657539688'', Call_Delete ''fstmp657539688'']) \<and>
   GeneratePieceCommitmentToFile ex_ext ex_pio 0 (Cid 1) 0 [] =
     (Inr (Cid 127, ''fstmp657539688'', 127),
      [Call_CreateTemp, Call_WriteCar, Call_Seek, Call_GeneratePieceCommitment,
       Call_f_Close ''fstmp657539688'']) \<and>
   fst (GeneratePieceCommitmentToFile ex_ext
          (ex_pio_broken\<lparr>store := \<lparr>CreateTemp = Inr \<lparr>Path = ''fstmp657539688'', Seek = None,
                                                      Close = None\<rparr>,
                                    Delete = (\<lambda>_. None)\<rparr>\<rparr>) 0 (Cid 1) 0 []) =
     Inl ''block not found''"
proof -
  let ?f = "\<lparr>Path = ''fstmp657539688'', Seek = None, Close = Some ''close failed''\<rparr>"
  have tmp1: "CreateTemp (store ex_pio_broken) = Inr ?f" by (simp add: ex_defs)
  have run1: "GeneratePieceCommitmentToFile ex_ext ex_pio_broken 0 (Cid 1) 0 [] =
     (Inl ''block not found'',
      [Call_CreateTemp, Call_WriteCar,
       Call_f_Close ''fstmp657539688'', Call_Delete ''fstmp657539688''])"
    by (simp add: ex_defs pieceio_defs)
  have w1: "WriteCar (carIO ex_pio_broken) (bs ex_pio_broken) (Cid 1) 0 [] =
              ([1, 2], Some ''block not found'')"
    by (simp add: ex_defs)
  have tmp2: "CreateTemp (store ex_pio) = Inr ?f" by (simp add: ex_defs)
  have run2: "GeneratePieceCommitmentToFile ex_ext ex_pio 0 (Cid 1) 0 [] =
     (Inr (Cid 127, ''fstmp657539688'', 127),
      [Call_CreateTemp, Call_WriteCar, Call_Seek, Call_GeneratePieceCommitment,
       Call_f_Close ''fstmp657539688''])"
    by (simp add: ex_defs pieceio_defs)
  have w2: "WriteCar (carIO ex_pio) (bs ex_pio) (Cid 1) 0 [] = ([1, 2, 3], None)"
    by (simp add: ex_defs)
  from to_file_cleanup [OF tmp1 run1 w1, of "''block not found''" "Cid 127" "''fstmp657539688''" 127
         None "\<lambda>_. None"]
       to_file_cleanup [OF tmp2 run2 w2, of "''block not found''" "Cid 127" "''fstmp657539688''" 127
         None "\<lambda>_. None"]
       run1 run2
  show ?thesis by simp
qed

section \<open>The storage client\<close>

subsection \<open>The paths of \<open>ProposeStorageDeal\<close>\<close>

lemma log_simps [simp]:
  "trace (log e c) = trace c @ [e]" "conns (log e c) = conns c"
  "statemachines (log e c) = statemachines c" "net (log e c) = net c"
  "node (log e c) = node c" "pio (log e c) = pio c" "discovery (log e c) = discovery c"
  by (simp_all add: log_def)

lemma conns_put_simps [simp]:
  "trace (conns_put c i s) = trace c @ [Put_conns i s]"
  "conns (conns_put c i s) = (conns c)(i \<mapsto> s)"
  "statemachines (conns_put c i s) = statemachines c"
  by (simp_all add: conns_put_def)

lemma deal_fields:
  "ClientDeal.ProposalCid (deal i cdp info data) = i"
  "ClientDeal.Miner (deal i cdp info data) = PeerID info"
  "State (deal i cdp info data) = StorageDealUnknown"
  by (simp_all add: deal_def)

lemma calls_simps [simp]:
  "calls c c = []"
  "trace c' = trace c @ es \<Longrightarrow> calls c c' = es"
  by (simp_all add: calls_def)

lemma trace_at_Begin:
  "trace (at_Begin c addr p i d) =
     trace c @ [Call_CommP, Call_SignProposal addr p, Call_AsIpld, Call_Begin i d]"
  "conns (at_Begin c addr p i d) = conns c"
  "statemachines (at_Begin c addr p i d) = statemachines c"
  by (simp_all add: at_Begin_def)

lemma trace_at_Send:
  "trace (at_Send c addr info p i d g s) =
     trace c @ [Call_CommP, Call_SignProposal addr p, Call_AsIpld, Call_Begin i d,
                Call_NewDealStream (PeerID info), Put_conns i s, Call_Send i ClientEventOpen]"
  "conns (at_Send c addr info p i d g s) = (conns c)(i \<mapsto> s)"
  "statemachines (at_Send c addr info p i d g s) = g"
  by (simp_all add: at_Send_def trace_at_Begin)

lemma Begin_fresh:
  "Begin g i d = Inr g' \<Longrightarrow> map_of g' i = Some d \<and> map_of g i = None \<and> g' = g @ [(i, d)]"
  by (auto simp: Begin_def map_add_def split: option.splits)

lemma Send_cases:
  "Send x c i ev = (c', r) \<Longrightarrow>
     (r \<noteq> None \<and> c' = c) \<or>
     (\<exists>d dst. r = None \<and> map_of (statemachines c) i = Some d \<and>
        ClientEvents x ev (State d) = Some dst \<and>
        trace c' = trace c @ [Call_DealStream i (DealStream c i)] \<and> conns c' = conns c \<and>
        statemachines c' = AList.update i (d\<lparr>State := dst\<rparr>) (statemachines c))"
  by (auto simp: Send_def split: option.splits)

lemma update_appended:
  "map_of g i = None \<Longrightarrow> AList.update i v (g @ [(i, d)]) = g @ [(i, v)]"
  by (induction g) (auto split: if_splits)

lemma Get_List_appended:
  assumes "statemachines c' = g @ [(i, d)]" "map_of g i = None"
  shows "GetInProgressDeal c' i = Inr d \<and> ListInProgressDeals c' = Inr (map snd g @ [d])"
  using assms by (simp add: GetInProgressDeal_def ListInProgressDeals_def map_add_def)

lemma psd_CommP_fails:
  "CommP x (pio c) rt data = Inl e \<Longrightarrow>
   ProposeStorageDeal x c addr info data se ee price col rt =
     (log Call_CommP c, None, Some (''computing commP failed: '' @ e))"
  by (simp add: ProposeStorageDeal_def)

lemma psd_Sign_fails:
  "CommP x (pio c) rt data = Inr (commP, n) \<Longrightarrow>
   SignProposal (node c) addr (dealProposal x commP n addr info se ee price) = Inl e \<Longrightarrow>
   ProposeStorageDeal x c addr info data se ee price col rt =
     (log (Call_SignProposal addr (dealProposal x commP n addr info se ee price)) (log Call_CommP c),
      None, Some (''signing deal proposal failed: '' @ e))"
  by (simp add: ProposeStorageDeal_def Let_def)

lemma psd_AsIpld_fails:
  "CommP x (pio c) rt data = Inr (commP, n) \<Longrightarrow>
   SignProposal (node c) addr (dealProposal x commP n addr info se ee price) = Inr cdp \<Longrightarrow>
   AsIpld x cdp = Inl e \<Longrightarrow>
   ProposeStorageDeal x c addr info data se ee price col rt =
     (log Call_AsIpld
        (log (Call_SignProposal addr (dealProposal x commP n addr info se ee price))
           (log Call_CommP c)),
      None, Some (''getting proposal node failed: '' @ e))"
  by (simp add: ProposeStorageDeal_def Let_def)

lemma psd_Begin_fails:
  "CommP x (pio c) rt data = Inr (commP, n) \<Longrightarrow>
   SignProposal (node c) addr (dealProposal x commP n addr info se ee price) = Inr cdp \<Longrightarrow>
   AsIpld x cdp = Inr i \<Longrightarrow>
   Begin (statemachines c) i (deal i cdp info data) = Inl e \<Longrightarrow>
   ProposeStorageDeal x c addr info data se ee price col rt =
     (at_Begin c addr (dealProposal x commP n addr info se ee price) i (deal i cdp info data),
      None, Some (''setting up deal tracking: '' @ e))"
  by (simp add: ProposeStorageDeal_def Let_def at_Begin_def)

lemma psd_NewDealStream_fails:
  "CommP x (pio c) rt data = Inr (commP, n) \<Longrightarrow>
   SignProposal (node c) addr (dealProposal x commP n addr info se ee price) = Inr cdp \<Longrightarrow>
   AsIpld x cdp = Inr i \<Longrightarrow>
   Begin (statemachines c) i (deal i cdp info data) = Inr g \<Longrightarrow>
   NewDealStream (net c) (PeerID info) = Inl e \<Longrightarrow>
   ProposeStorageDeal x c addr info data se ee price col rt =
     (log (Call_NewDealStream (PeerID info))
        ((at_Begin c addr (dealProposal x commP n addr info se ee price) i
            (deal i cdp info data))\<lparr>statemachines := g\<rparr>),
      None, Some (''connecting to storage provider failed: '' @ e))"
  by (simp add: ProposeStorageDeal_def Let_def at_Begin_def)

lemma psd_after_stream:
  "CommP x (pio c) rt data = Inr (commP, n) \<Longrightarrow>
   SignProposal (node c) addr (dealProposal x commP n addr info se ee price) = Inr cdp \<Longrightarrow>
   AsIpld x cdp = Inr i \<Longrightarrow>
   Begin (statemachines c) i (deal i cdp info data) = Inr g \<Longrightarrow>
   NewDealStream (net c) (PeerID info) = Inr s \<Longrightarrow>
   ProposeStorageDeal x c addr info data se ee price col rt =
     (case Send x (at_Send c addr info (dealProposal x commP n addr info se ee price) i
                     (deal i cdp info data) g s) i ClientEventOpen of
        (c8, Some e) \<Rightarrow> (c8, None, Some (''initializing state machine: '' @ e))
      | (c8, None) \<Rightarrow>
         (log (Call_AddPeer (Root data)
                 \<lparr>RetrievalPeer.Address = Provider (dealProposal x commP n addr info se ee price),
                  ID = ClientDeal.Miner (deal i cdp info data)\<rparr>) c8,
          Some \<lparr>ProposeStorageDealResult.ProposalCid = i\<rparr>,
          AddPeer (discovery c) (Root data)
             \<lparr>RetrievalPeer.Address = Provider (dealProposal x commP n addr info se ee price),
              ID = ClientDeal.Miner (deal i cdp info data)\<rparr>))"
  by (simp add: ProposeStorageDeal_def Let_def at_Begin_def at_Send_def deal_fields
           split: prod.splits option.splits)

text \<open>
  Every run of \<open>ProposeStorageDeal\<close> follows one of seven paths: the first five fail at one
  of the five calls before \<open>Send\<close>, the sixth fails in \<open>Send\<close>, the seventh reaches the end.
\<close>

lemma psd_paths [case_names CommP_fails Sign_fails AsIpld_fails Begin_fails Stream_fails
    Send_fails Sent]:
  fixes x c addr info data se ee price col rt
  defines "run \<equiv> ProposeStorageDeal x c addr info data se ee price col rt"
  obtains e where "CommP x (pio c) rt data = Inl e"
      "run = (log Call_CommP c, None, Some (''computing commP failed: '' @ e))"
  | commP n e where "CommP x (pio c) rt data = Inr (commP, n)"
      "SignProposal (node c) addr (dealProposal x commP n addr info se ee price) = Inl e"
      "run = (log (Call_SignProposal addr (dealProposal x commP n addr info se ee price))
                (log Call_CommP c),
              None, Some (''signing deal proposal failed: '' @ e))"
  | commP n cdp e where "CommP x (pio c) rt data = Inr (commP, n)"
      "SignProposal (node c) addr (dealProposal x commP n addr info se ee price) = Inr cdp"
      "AsIpld x cdp = Inl e"
      "run = (log Call_AsIpld
                (log (Call_SignProposal addr (dealProposal x commP n addr info se ee price))
                   (log Call_CommP c)),
              None, Some (''getting proposal node failed: '' @ e))"
  | commP n cdp i e where "CommP x (pio c) rt data = Inr (commP, n)"
      "SignProposal (node c) addr (dealProposal x commP n addr info se ee price) = Inr cdp"
      "AsIpld x cdp = Inr i"
      "Begin (statemachines c) i (deal i cdp info data) = Inl e"
      "run = (at_Begin c addr (dealProposal x commP n addr info se ee price) i
                (deal i cdp info data),
              None, Some (''setting up deal tracking: '' @ e))"
  | commP n cdp i g e where "CommP x (pio c) rt data = Inr (commP, n)"
      "SignProposal (node c) addr (dealProposal x commP n addr info se ee price) = Inr cdp"
      "AsIpld x cdp = Inr i"
      "Begin (statemachines c) i (deal i cdp info data) = Inr g"
      "NewDealStream (net c) (PeerID info) = Inl e"
      "run = (log (Call_NewDealStream (PeerID info))
                ((at_Begin c addr (dealProposal x commP n addr info se ee price) i
                    (deal i cdp info data))\<lparr>statemachines := g\<rparr>),
              None, Some (''connecting to storage provider failed: '' @ e))"
  | commP n cdp i g s e where "CommP x (pio c) rt data = Inr (commP, n)"
      "SignProposal (node c) addr (dealProposal x commP n addr info se ee price) = Inr cdp"
      "AsIpld x cdp = Inr i"
      "Begin (statemachines c) i (deal i cdp info data) = Inr g"
      "NewDealStream (net c) (PeerID info) = Inr s"
      "run = (at_Send c addr info (dealProposal x commP n addr info se ee price) i
                (deal i cdp info data) g s,
              None, Some (''initializing state machine: '' @ e))"
  | commP n cdp i g s c8 d dst where "CommP x (pio c) rt data = Inr (commP, n)"
      "SignProposal (node c) addr (dealProposal x commP n addr info se ee price) = Inr cdp"
      "AsIpld x cdp = Inr i"
      "Begin (statemachines c) i (deal i cdp info data) = Inr g"
      "NewDealStream (net c) (PeerID info) = Inr s"
      "map_of g i = Some d" "ClientEvents x ClientEventOpen (State d) = Some dst"
      "trace c8 = trace (at_Send c addr info (dealProposal x commP n addr info se ee price) i
                           (deal i cdp info data) g s) @ [Call_DealStream i (Inr s)]"
      "conns c8 = (conns c)(i \<mapsto> s)"
      "statemachines c8 = AList.update i (d\<lparr>State := dst\<rparr>) g"
      "run = (log (Call_AddPeer (Root data)
                 \<lparr>RetrievalPeer.Address = Provider (dealProposal x commP n addr info se ee price),
                  ID = PeerID info\<rparr>) c8,
              Some \<lparr>ProposeStorageDealResult.ProposalCid = i\<rparr>,
              AddPeer (discovery c) (Root data)
                 \<lparr>RetrievalPeer.Address = Provider (dealProposal x commP n addr info se ee price),
                  ID = PeerID info\<rparr>)"
      "Send x (at_Send c addr info (dealProposal x commP n addr info se ee price) i
                 (deal i cdp info data) g s) i ClientEventOpen = (c8, None)"
proof (cases "CommP x (pio c) rt data")
  case (Inl e)
  from psd_CommP_fails [OF this] that(1) [OF Inl] show ?thesis by (simp add: run_def)
next
  case (Inr cn)
  then obtain commP n where cp: "CommP x (pio c) rt data = Inr (commP, n)" by (cases cn) auto
  let ?p = "dealProposal x commP n addr info se ee price"
  show ?thesis
  proof (cases "SignProposal (node c) addr ?p")
    case (Inl e)
    from psd_Sign_fails [OF cp this] that(2) [OF cp Inl] show ?thesis by (simp add: run_def)
  next
    case sg: (Inr cdp)
    show ?thesis
    proof (cases "AsIpld x cdp")
      case (Inl e)
      from psd_AsIpld_fails [OF cp sg this] that(3) [OF cp sg Inl] show ?thesis
        by (simp add: run_def)
    next
      case nd: (Inr i)
      let ?d = "deal i cdp info data"
      show ?thesis
      proof (cases "Begin (statemachines c) i ?d")
        case (Inl e)
        from psd_Begin_fails [OF cp sg nd this] that(4) [OF cp sg nd Inl] show ?thesis
          by (simp add: run_def)
      next
        case bg: (Inr g)
        show ?thesis
        proof (cases "NewDealStream (net c) (PeerID info)")
          case (Inl e)
          from psd_NewDealStream_fails [OF cp sg nd bg this] that(5) [OF cp sg nd bg Inl]
          show ?thesis by (simp add: run_def)
        next
          case st: (Inr s)
          let ?c7 = "at_Send c addr info ?p i ?d g s"
          obtain c8 e8 where sd: "Send x ?c7 i ClientEventOpen = (c8, e8)" by force
          have ds: "DealStream ?c7 i = Inr s" by (simp add: DealStream_def trace_at_Send)
          note eq = psd_after_stream [OF cp sg nd bg st, of col]
          show ?thesis
          proof (cases e8)
            case (Some e)
            with Send_cases [OF sd] have "c8 = ?c7" by auto
            with eq sd Some have "run = (?c7, None, Some (''initializing state machine: '' @ e))"
              by (simp add: run_def)
            from that(6) [OF cp sg nd bg st this] show ?thesis .
          next
            case None
            with Send_cases [OF sd] obtain d dst where
              "map_of g i = Some d" "ClientEvents x ClientEventOpen (State d) = Some dst"
              "trace c8 = trace ?c7 @ [Call_DealStream i (Inr s)]"
              "conns c8 = (conns c)(i \<mapsto> s)"
              "statemachines c8 = AList.update i (d\<lparr>State := dst\<rparr>) g"
              by (auto simp: ds trace_at_Send)
            moreover from eq sd None have "run = (log (Call_AddPeer (Root data)
                 \<lparr>RetrievalPeer.Address = Provider ?p, ID = PeerID info\<rparr>) c8,
              Some \<lparr>ProposeStorageDealResult.ProposalCid = i\<rparr>,
              AddPeer (discovery c) (Root data)
                 \<lparr>RetrievalPeer.Address = Provider ?p, ID = PeerID info\<rparr>)"
              by (simp add: run_def deal_fields)
            moreover from sd None have "Send x ?c7 i ClientEventOpen = (c8, None)" by simp
            ultimately show ?thesis using that(7) [OF cp sg nd bg st] by blast
          qed
        qed
      qed
    qed
  qed
qed

subsection \<open>The examples, evaluated\<close>

lemma ex_CommP: "CommP ex_packages (pio ex_client) 0 ex_data = Inr (Cid 127, 127)"
  by (simp add: ex_defs pieceio_defs)

lemma ex_CommP_broken: "CommP ex_packages (pio ex_client_broken) 0 ex_data = Inl ''short read''"
  by (simp add: ex_defs pieceio_defs)

lemma ex_proposal:
  "dealProposal ex_packages (Cid 127) 127 ''t0100'' (ex_info ''t01000'' p) 10 20 5 = Proposal ex_signed"
  by (simp add: ex_defs dealProposal_def)

lemma ex_AsIpld: "AsIpld ex_packages ex_signed = Inr (Cid 128)"
  by (simp add: ex_defs dealProposal_def)

lemma ex_first_run:
  "ProposeStorageDeal ex_packages ex_client ''t0100'' (ex_info ''t01000'' ''peerA'') ex_data 10 20 5 0 0 =
     (ex_client\<lparr>statemachines := [(Cid 128, (ex_deal ''peerA'')\<lparr>State := StorageDealStatus 1\<rparr>)],
                conns := [Cid 128 \<mapsto> ex_stream],
                trace := [Call_CommP, Call_SignProposal ''t0100'' (Proposal ex_signed), Call_AsIpld,
                          Call_Begin (Cid 128) (ex_deal ''peerA''), Call_NewDealStream ''peerA'',
                          Put_conns (Cid 128) ex_stream, Call_Send (Cid 128) ClientEventOpen,
                          Call_DealStream (Cid 128) (Inr ex_stream),
                          Call_AddPeer (Cid 1) \<lparr>RetrievalPeer.Address = ''t01000'', ID = ''peerA''\<rparr>]\<rparr>,
      Some \<lparr>ProposeStorageDealResult.ProposalCid = Cid 128\<rparr>, None)"
  by (simp add: ex_defs pieceio_defs client_defs Let_def)

lemma ex_tracking:
  "ex_client_tracking =
     ex_client\<lparr>statemachines := [(Cid 128, (ex_deal ''peerA'')\<lparr>State := StorageDealStatus 1\<rparr>)],
               conns := [Cid 128 \<mapsto> ex_stream],
               trace := [Call_CommP, Call_SignProposal ''t0100'' (Proposal ex_signed), Call_AsIpld,
                         Call_Begin (Cid 128) (ex_deal ''peerA''), Call_NewDealStream ''peerA'',
                         Put_conns (Cid 128) ex_stream, Call_Send (Cid 128) ClientEventOpen,
                         Call_DealStream (Cid 128) (Inr ex_stream),
                         Call_AddPeer (Cid 1) \<lparr>RetrievalPeer.Address = ''t01000'', ID = ''peerA''\<rparr>]\<rparr>"
  by (simp add: ex_client_tracking_def ex_first_run)

lemma ex_second_run:
  "ProposeStorageDeal ex_packages ex_client_tracking ''t0100'' (ex_info ''t01000'' ''peerB'') ex_data
     10 20 5 0 0 =
     (at_Begin ex_client_tracking ''t0100'' (Proposal ex_signed) (Cid 128) (ex_deal ''peerB''),
      None, Some ''setting up deal tracking: already tracking state'')"
proof -
  have cp: "CommP ex_packages (pio ex_client_tracking) 0 ex_data = Inr (Cid 127, 127)"
    using ex_CommP by (simp add: ex_tracking)
  have sg: "SignProposal (node ex_client_tracking) ''t0100''
              (dealProposal ex_packages (Cid 127) 127 ''t0100'' (ex_info ''t01000'' ''peerB'') 10 20 5) =
            Inr ex_signed"
    by (simp add: ex_tracking ex_proposal) (simp add: ex_defs dealProposal_def)
  have bg: "Begin (statemachines ex_client_tracking) (Cid 128)
              (deal (Cid 128) ex_signed (ex_info ''t01000'' ''peerB'') ex_data) =
            Inl ''already tracking state''"
    by (simp add: ex_tracking Begin_def)
  from psd_Begin_fails [OF cp sg ex_AsIpld bg, of 0] show ?thesis
    by (simp add: ex_proposal ex_deal_def)
qed

lemma ex_broken_run:
  "ProposeStorageDeal ex_packages ex_client_broken ''t0100'' (ex_info ''t01000'' ''peerA'') ex_data
     10 20 5 0 0 =
     (log Call_CommP ex_client_broken, None, Some ''computing commP failed: short read'')"
  using psd_CommP_fails [OF ex_CommP_broken] by simp

lemma ex_undialled_run:
  "ProposeStorageDeal ex_packages ex_client ''t0100'' (ex_info ''t01000'' ''peerX'') ex_data
     10 20 5 0 0 =
     (log (Call_NewDealStream ''peerX'')
        ((at_Begin ex_client ''t0100'' (Proposal ex_signed) (Cid 128) (ex_deal ''peerX''))
           \<lparr>statemachines := [(Cid 128, ex_deal ''peerX'')]\<rparr>),
      None, Some ''connecting to storage provider failed: dial failed'')"
proof -
  have sg: "SignProposal (node ex_client) ''t0100''
              (dealProposal ex_packages (Cid 127) 127 ''t0100'' (ex_info ''t01000'' ''peerX'') 10 20 5) =
            Inr ex_signed"
    by (simp add: ex_defs dealProposal_def)
  have bg: "Begin (statemachines ex_client) (Cid 128)
              (deal (Cid 128) ex_signed (ex_info ''t01000'' ''peerX'') ex_data) =
            Inr [(Cid 128, ex_deal ''peerX'')]"
    by (simp add: ex_client_def ex_deal_def Begin_def)
  have st: "NewDealStream (net ex_client) (PeerID (ex_info ''t01000'' ''peerX'')) = Inl ''dial failed''"
    by (simp add: ex_defs)
  have pe: "PeerID (ex_info ''t01000'' ''peerX'') = ''peerX''" by (simp add: ex_info_def)
  from psd_NewDealStream_fails [OF ex_CommP sg ex_AsIpld bg st, of 0] show ?thesis
    by (simp add: ex_proposal ex_deal_def pe)
qed

subsection \<open>Failures of \<open>ProposeStorageDeal\<close> and what they leave behind\<close>

text \<open>
  Claim C4, as stated: an invocation that fails before \<open>Begin\<close> creates no deal record and
  no registry entry, and for an invocation that fails at or after \<open>Begin\<close> the deal record
  created by \<open>Begin\<close> remains, discoverable by list and get. An invocation that fails at
  \<open>Begin\<close> itself has created no record: below, the proposal already tracked (made through
  \<open>peerA\<close>) is proposed again through \<open>peerB\<close>; \<open>Begin\<close> is called with the record of the new
  deal and fails; the engine lists what it listed before, and under the identifier it holds
  the earlier record, not the one handed to \<open>Begin\<close>.
\<close>

theorem failed_Begin_creates_no_record:
  "snd (snd (ProposeStorageDeal ex_packages ex_client_tracking ''t0100'' (ex_info ''t01000'' ''peerB'')
               ex_data 10 20 5 0 0)) =
     Some ''setting up deal tracking: already tracking state'' \<and>
   Call_Begin (Cid 128) (ex_deal ''peerB'') \<in>
     set (calls ex_client_tracking
            (fst (ProposeStorageDeal ex_packages ex_client_tracking ''t0100''
                    (ex_info ''t01000'' ''peerB'') ex_data 10 20 5 0 0))) \<and>
   ListInProgressDeals
     (fst (ProposeStorageDeal ex_packages ex_client_tracking ''t0100'' (ex_info ''t01000'' ''peerB'')
             ex_data 10 20 5 0 0)) =
     ListInProgressDeals ex_client_tracking \<and>
   GetInProgressDeal
     (fst (ProposeStorageDeal ex_packages ex_client_tracking ''t0100'' (ex_info ''t01000'' ''peerB'')
             ex_data 10 20 5 0 0)) (Cid 128) =
     Inr ((ex_deal ''peerA'')\<lparr>State := StorageDealStatus 1\<rparr>) \<and>
   ClientDeal.Miner ((ex_deal ''peerA'')\<lparr>State := StorageDealStatus 1\<rparr>) = ''peerA'' \<and>
   ClientDeal.Miner (ex_deal ''peerB'') = ''peerB''"
  by (simp add: ex_second_run trace_at_Begin calls_def ListInProgressDeals_def
        GetInProgressDeal_def)
     (simp add: ex_tracking ex_deal_def deal_def ex_info_def)

text \<open>
  Claim C4, amended. An invocation in which \<open>Begin\<close> is not reached, or in which \<open>Begin\<close>
  itself fails, fails and leaves the records of the engine and the registry as they were.
  An invocation in which \<open>Begin\<close> succeeded leaves the record created by \<open>Begin\<close> in the
  engine, its state possibly advanced, whatever happens afterwards: get finds it under the
  identifier of the proposal and list returns it after the records that were there.
\<close>

theorem failure_leaves_record_only_after_Begin:
  assumes run: "ProposeStorageDeal x c addr info data se ee price col rt = (c', r, e)"
  shows "((\<forall>j b. Call_Begin j b \<notin> set (calls c c')) \<longrightarrow>
            e \<noteq> None \<and> statemachines c' = statemachines c \<and> conns c' = conns c) \<and>
         (Call_Begin i d \<in> set (calls c c') \<longrightarrow>
            (case Begin (statemachines c) i d of
               Inl b \<Rightarrow> e \<noteq> None \<and> statemachines c' = statemachines c \<and> conns c' = conns c
             | Inr g \<Rightarrow>
                 (\<exists>st. GetInProgressDeal c' i = Inr (d\<lparr>State := st\<rparr>) \<and>
                       ListInProgressDeals c' =
                         Inr (map snd (statemachines c) @ [d\<lparr>State := st\<rparr>]))))"
proof (cases rule: psd_paths [of x c rt data addr info se ee price col])
  case (CommP_fails e0)
  with run show ?thesis by (auto simp: calls_def)
next
  case (Sign_fails commP n e0)
  with run show ?thesis by (auto simp: calls_def)
next
  case (AsIpld_fails commP n cdp e0)
  with run show ?thesis by (auto simp: calls_def)
next
  case (Begin_fails commP n cdp i0 e0)
  let ?p = "dealProposal x commP n addr info se ee price"
  from Begin_fails run have c': "c' = at_Begin c addr ?p i0 (deal i0 cdp info data)"
    and e: "e \<noteq> None" by auto
  have "calls c c' = [Call_CommP, Call_SignProposal addr ?p, Call_AsIpld,
                      Call_Begin i0 (deal i0 cdp info data)]"
    by (simp add: c' trace_at_Begin)
  with Begin_fails(4) e show ?thesis by (auto simp: c' trace_at_Begin)
next
  case (Stream_fails commP n cdp i0 g e0)
  let ?d = "deal i0 cdp info data"
  let ?p = "dealProposal x commP n addr info se ee price"
  from Stream_fails run have c': "c' = log (Call_NewDealStream (PeerID info))
       ((at_Begin c addr ?p i0 ?d)\<lparr>statemachines := g\<rparr>)"
    by auto
  have cs: "calls c c' = [Call_CommP, Call_SignProposal addr ?p, Call_AsIpld, Call_Begin i0 ?d,
                          Call_NewDealStream (PeerID info)]"
    by (simp add: c' trace_at_Begin)
  from Begin_fresh [OF Stream_fails(4)] have g: "g = statemachines c @ [(i0, ?d)]"
    and fresh: "map_of (statemachines c) i0 = None" by auto
  have sm: "statemachines c' = statemachines c @ [(i0, ?d\<lparr>State := StorageDealUnknown\<rparr>)]"
    by (simp add: c' g deal_def)
  from Get_List_appended [OF sm fresh] Stream_fails(4) cs show ?thesis
    by auto
next
  case (Send_fails commP n cdp i0 g s e0)
  let ?d = "deal i0 cdp info data"
  let ?p = "dealProposal x commP n addr info se ee price"
  from Send_fails run have c': "c' = at_Send c addr info ?p i0 ?d g s" by auto
  have cs: "calls c c' = [Call_CommP, Call_SignProposal addr ?p, Call_AsIpld, Call_Begin i0 ?d,
                Call_NewDealStream (PeerID info), Put_conns i0 s, Call_Send i0 ClientEventOpen]"
    by (simp add: c' trace_at_Send)
  from Begin_fresh [OF Send_fails(4)] have g: "g = statemachines c @ [(i0, ?d)]"
    and fresh: "map_of (statemachines c) i0 = None" by auto
  have sm: "statemachines c' = statemachines c @ [(i0, ?d\<lparr>State := StorageDealUnknown\<rparr>)]"
    by (simp add: c' g deal_def trace_at_Send)
  from Get_List_appended [OF sm fresh] Send_fails(4) cs show ?thesis
    by auto
next
  case (Sent commP n cdp i0 g s c8 d0 dst)
  let ?d = "deal i0 cdp info data"
  let ?p = "dealProposal x commP n addr info se ee price"
  from Sent run have c': "c' = log (Call_AddPeer (Root data)
                 \<lparr>RetrievalPeer.Address = Provider ?p, ID = PeerID info\<rparr>) c8" by auto
  have cs: "calls c c' = [Call_CommP, Call_SignProposal addr ?p, Call_AsIpld, Call_Begin i0 ?d,
                Call_NewDealStream (PeerID info), Put_conns i0 s, Call_Send i0 ClientEventOpen,
                Call_DealStream i0 (Inr s),
                Call_AddPeer (Root data) \<lparr>RetrievalPeer.Address = Provider ?p, ID = PeerID info\<rparr>]"
    by (simp add: c' Sent(8) trace_at_Send)
  from Begin_fresh [OF Sent(4)] have g: "g = statemachines c @ [(i0, ?d)]"
    and fresh: "map_of (statemachines c) i0 = None" and "map_of g i0 = Some ?d" by auto
  with Sent(6) have d0: "d0 = ?d" by simp
  have sm: "statemachines c' = statemachines c @ [(i0, ?d\<lparr>State := dst\<rparr>)]"
    by (simp add: c' Sent(10) g d0 update_appended [OF fresh])
  from Get_List_appended [OF sm fresh] Sent(4) cs show ?thesis
    by auto
qed

theorem failure_leaves_record_only_after_Begin_witness:
  "snd (snd (ProposeStorageDeal ex_packages ex_client_broken ''t0100'' (ex_info ''t01000'' ''peerA'')
               ex_data 10 20 5 0 0)) = Some ''computing commP failed: short read'' \<and>
   statemachines (log Call_CommP ex_client_broken) = statemachines ex_client_broken \<and>
   conns (log Call_CommP ex_client_broken) = conns ex_client_broken \<and>
   snd (snd (ProposeStorageDeal ex_packages ex_client_tracking ''t0100'' (ex_info ''t01000'' ''peerB'')
               ex_data 10 20 5 0 0)) = Some ''setting up deal tracking: already tracking state'' \<and>
   statemachines (at_Begin ex_client_tracking ''t0100'' (Proposal ex_signed) (Cid 128)
                    (ex_deal ''peerB'')) = statemachines ex_client_tracking \<and>
   conns (at_Begin ex_client_tracking ''t0100'' (Proposal ex_signed) (Cid 128) (ex_deal ''peerB'')) =
     conns ex_client_tracking \<and>
   snd (snd (ProposeStorageDeal ex_packages ex_client ''t0100'' (ex_info ''t01000'' ''peerX'')
               ex_data 10 20 5 0 0)) = Some ''connecting to storage provider failed: dial failed'' \<and>
   GetInProgressDeal
     (fst (ProposeStorageDeal ex_packages ex_client ''t0100'' (ex_info ''t01000'' ''peerX'')
             ex_data 10 20 5 0 0)) (Cid 128) = Inr (ex_deal ''peerX'') \<and>
   ListInProgressDeals
     (fst (ProposeStorageDeal ex_packages ex_client ''t0100'' (ex_info ''t01000'' ''peerX'')
             ex_data 10 20 5 0 0)) = Inr [ex_deal ''peerX'']"
proof -
  have b1: "Begin (statemachines ex_client_tracking) (Cid 128) (ex_deal ''peerB'') =
              Inl ''already tracking state''"
    by (simp add: ex_tracking Begin_def)
  have b2: "Begin (statemachines ex_client) (Cid 128) (ex_deal ''peerX'') =
              Inr [(Cid 128, ex_deal ''peerX'')]"
    by (simp add: ex_client_def Begin_def)
  have s: "(ex_deal ''peerX'')\<lparr>State := st\<rparr> = ex_deal ''peerX'' \<longleftrightarrow> st = StorageDealUnknown" for st
    by (auto simp: ex_deal_def deal_def)
  from failure_leaves_record_only_after_Begin [OF ex_broken_run, of "Cid 128" "ex_deal ''peerB''"]
  have 1: "statemachines (log Call_CommP ex_client_broken) = statemachines ex_client_broken \<and>
           conns (log Call_CommP ex_client_broken) = conns ex_client_broken"
    by (simp add: calls_def)
  from failure_leaves_record_only_after_Begin [OF ex_second_run, of "Cid 128" "ex_deal ''peerB''"] b1
  have 2: "statemachines (at_Begin ex_client_tracking ''t0100'' (Proposal ex_signed) (Cid 128)
                    (ex_deal ''peerB'')) = statemachines ex_client_tracking \<and>
           conns (at_Begin ex_client_tracking ''t0100'' (Proposal ex_signed) (Cid 128)
                    (ex_deal ''peerB'')) = conns ex_client_tracking"
    by (simp add: calls_def trace_at_Begin)
  from failure_leaves_record_only_after_Begin [OF ex_undialled_run, of "Cid 128" "ex_deal ''peerX''"] b2
  have "\<exists>st. GetInProgressDeal
     (fst (ProposeStorageDeal ex_packages ex_client ''t0100'' (ex_info ''t01000'' ''peerX'')
             ex_data 10 20 5 0 0)) (Cid 128) = Inr ((ex_deal ''peerX'')\<lparr>State := st\<rparr>) \<and>
     ListInProgressDeals
     (fst (ProposeStorageDeal ex_packages ex_client ''t0100'' (ex_info ''t01000'' ''peerX'')
             ex_data 10 20 5 0 0)) = Inr (map snd (statemachines ex_client) @ [(ex_deal ''peerX'')\<lparr>State := st\<rparr>])"
    by (simp add: calls_def trace_at_Begin ex_undialled_run)
  then have 3: "GetInProgressDeal
     (fst (ProposeStorageDeal ex_packages ex_client ''t0100'' (ex_info ''t01000'' ''peerX'')
             ex_data 10 20 5 0 0)) (Cid 128) = Inr (ex_deal ''peerX'') \<and>
     ListInProgressDeals
     (fst (ProposeStorageDeal ex_packages ex_client ''t0100'' (ex_info ''t01000'' ''peerX'')
             ex_data 10 20 5 0 0)) = Inr [ex_deal ''peerX'']"
    by (auto simp: ex_undialled_run GetInProgressDeal_def ListInProgressDeals_def)
  from 1 2 3 show ?thesis by (simp add: ex_broken_run ex_second_run ex_undialled_run)
qed

subsection \<open>The order of the steps of a proposal\<close>

text \<open>
  Claim C5. In every successful run of \<open>ProposeStorageDeal\<close> the calls are, in this order:
  \<open>Begin\<close> for the identifier of the proposal, the opening of the deal stream, its storing
  in the registry under that identifier, and \<open>Send\<close> of the open event for that identifier.
  \<open>Begin\<close> has registered the record of the deal in the engine, and \<open>Send\<close> is executed on a
  state in which the engine holds that record and the registry holds the opened stream
  under the identifier, so that the lookup made by the handler of the event returns this
  stream. When the run returns, the registry still holds the stream and the engine holds
  the record, in the state the open event leads to.
\<close>

theorem Begin_and_registration_precede_Send:
  assumes ok: "ProposeStorageDeal x c addr info data se ee price col rt = (c', r, None)"
  shows "\<exists>p cdp i g s c8 dst peer.
           trace c' = trace c @
             [Call_CommP, Call_SignProposal addr p, Call_AsIpld,
              Call_Begin i (deal i cdp info data),
              Call_NewDealStream (PeerID info), Put_conns i s, Call_Send i ClientEventOpen,
              Call_DealStream i (Inr s), Call_AddPeer (Root data) peer] \<and>
           SignProposal (node c) addr p = Inr cdp \<and> AsIpld x cdp = Inr i \<and>
           Begin (statemachines c) i (deal i cdp info data) = Inr g \<and>
           NewDealStream (net c) (PeerID info) = Inr s \<and>
           map_of (statemachines (at_Send c addr info p i (deal i cdp info data) g s)) i =
             Some (deal i cdp info data) \<and>
           conns (at_Send c addr info p i (deal i cdp info data) g s) i = Some s \<and>
           DealStream (at_Send c addr info p i (deal i cdp info data) g s) i = Inr s \<and>
           Send x (at_Send c addr info p i (deal i cdp info data) g s) i ClientEventOpen =
             (c8, None) \<and>
           c' = log (Call_AddPeer (Root data) peer) c8 \<and>
           conns c' = (conns c)(i \<mapsto> s) \<and>
           ClientEvents x ClientEventOpen StorageDealUnknown = Some dst \<and>
           statemachines c' =
             statemachines c @ [(i, (deal i cdp info data)\<lparr>State := dst\<rparr>)] \<and>
           r = Some \<lparr>ProposeStorageDealResult.ProposalCid = i\<rparr>"
proof (cases rule: psd_paths [of x c rt data addr info se ee price col])
  case (Sent commP n cdp i g s c8 d dst)
  let ?p = "dealProposal x commP n addr info se ee price"
  let ?d = "deal i cdp info data"
  let ?peer = "\<lparr>RetrievalPeer.Address = Provider ?p, ID = PeerID info\<rparr>"
  let ?c7 = "at_Send c addr info ?p i ?d g s"
  from Sent(11) ok have c': "c' = log (Call_AddPeer (Root data) ?peer) c8"
    and r: "r = Some \<lparr>ProposeStorageDealResult.ProposalCid = i\<rparr>"
    by auto
  from Begin_fresh [OF Sent(4)] have g: "g = statemachines c @ [(i, ?d)]"
    and fresh: "map_of (statemachines c) i = None" and gi: "map_of g i = Some ?d" by auto
  from gi Sent(6) have d: "d = ?d" by simp
  from Sent(7) have ev: "ClientEvents x ClientEventOpen StorageDealUnknown = Some dst"
    by (simp add: d deal_fields)
  have tr: "trace c' = trace c @
             [Call_CommP, Call_SignProposal addr ?p, Call_AsIpld, Call_Begin i ?d,
              Call_NewDealStream (PeerID info), Put_conns i s, Call_Send i ClientEventOpen,
              Call_DealStream i (Inr s), Call_AddPeer (Root data) ?peer]"
    by (simp add: c' Sent(8) trace_at_Send)
  have at: "map_of (statemachines ?c7) i = Some ?d" "conns ?c7 i = Some s"
    "DealStream ?c7 i = Inr s"
    by (simp_all add: trace_at_Send gi DealStream_def)
  have cn: "conns c' = (conns c)(i \<mapsto> s)" by (simp add: c' Sent(9))
  have sm: "statemachines c' = statemachines c @ [(i, ?d\<lparr>State := dst\<rparr>)]"
    by (simp add: c' Sent(10) g d update_appended [OF fresh])
  from tr Sent(2) Sent(3) Sent(4) Sent(5) at Sent(12) c' cn ev sm r show ?thesis
    by blast
qed (use ok in auto)

theorem Begin_and_registration_precede_Send_witness:
  "snd (snd (ProposeStorageDeal ex_packages ex_client ''t0100'' (ex_info ''t01000'' ''peerA'') ex_data
               10 20 5 0 0)) = None \<and>
   trace ex_client_tracking =
     trace ex_client @
       [Call_CommP, Call_SignProposal ''t0100'' (Proposal ex_signed), Call_AsIpld,
        Call_Begin (Cid 128) (ex_deal ''peerA''), Call_NewDealStream ''peerA'',
        Put_conns (Cid 128) ex_stream, Call_Send (Cid 128) ClientEventOpen,
        Call_DealStream (Cid 128) (Inr ex_stream),
        Call_AddPeer (Cid 1) \<lparr>RetrievalPeer.Address = ''t01000'', ID = ''peerA''\<rparr>] \<and>
   NewDealStream (net ex_client) ''peerA'' = Inr ex_stream \<and>
   conns ex_client_tracking (Cid 128) = Some ex_stream \<and>
   statemachines ex_client_tracking =
     [(Cid 128, (ex_deal ''peerA'')\<lparr>State := StorageDealStatus 1\<rparr>)]"
proof -
  have st: "NewDealStream (net ex_client) ''peerA'' = Inr ex_stream" by (simp add: ex_defs)
  have tr: "trace ex_client = []" by (simp add: ex_client_def)
  from Begin_and_registration_precede_Send [OF ex_first_run] st tr
  show ?thesis by (simp add: ex_first_run ex_tracking)
qed

subsection \<open>Asking for a price\<close>

text \<open>
  Claim C6. When the ask of the response names a miner other than the address of the
  provider that was asked, or when the chain node does not validate the signature of the
  ask, \<open>GetAsk\<close> returns an error and no ask, and the records of the engine and the
  registry are as they were.
\<close>

theorem GetAsk_rejects_wrong_miner_or_signature:
  assumes "NewAskStream (net c) (PeerID info) = Inr s"
    and "WriteAskRequest s \<lparr>AskRequest.Miner = StorageProviderInfo.Address info\<rparr> = None"
    and "ReadAskResponse s = Inr out"
    and "AskResponse.Ask out = Some a"
    and "StorageAsk.Miner (SignedStorageAsk.Ask a) \<noteq> StorageProviderInfo.Address info \<or>
         ValidateAskSignature (node c) a \<noteq> None"
  shows "snd (GetAsk c info) =
           Inl (if StorageAsk.Miner (SignedStorageAsk.Ask a) \<noteq> StorageProviderInfo.Address info
                then ''got back ask for wrong miner'' else ''ask was not properly signed'') \<and>
         statemachines (fst (GetAsk c info)) = statemachines c \<and>
         conns (fst (GetAsk c info)) = conns c"
  using assms by (auto simp: GetAsk_def Let_def)

theorem GetAsk_rejects_wrong_miner_or_signature_witness:
  "snd (GetAsk ex_client_tracking (ex_info ''t02000'' ''peerA'')) = Inl ''got back ask for wrong miner'' \<and>
   statemachines (fst (GetAsk ex_client_tracking (ex_info ''t02000'' ''peerA''))) =
     statemachines ex_client_tracking \<and>
   conns (fst (GetAsk ex_client_tracking (ex_info ''t02000'' ''peerA''))) = conns ex_client_tracking \<and>
   snd (GetAsk ex_client_tracking (ex_info ''t01000'' ''peerB'')) = Inl ''ask was not properly signed'' \<and>
   statemachines (fst (GetAsk ex_client_tracking (ex_info ''t01000'' ''peerB''))) =
     statemachines ex_client_tracking \<and>
   conns (fst (GetAsk ex_client_tracking (ex_info ''t01000'' ''peerB''))) = conns ex_client_tracking \<and>
   ValidateAskSignature (node ex_client_tracking)
     \<lparr>SignedStorageAsk.Ask = \<lparr>StorageAsk.Miner = ''t01000'', Price = 5\<rparr>, Signature = ''peerB''\<rparr> =
     Some ''invalid signature''"
proof -
  let ?s = "\<lambda>p. \<lparr>WriteAskRequest = (\<lambda>_. None),
          ReadAskResponse = Inr \<lparr>AskResponse.Ask =
             Some \<lparr>SignedStorageAsk.Ask = \<lparr>StorageAsk.Miner = ''t01000'', Price = 5\<rparr>,
                   Signature = p\<rparr>\<rparr>\<rparr>"
  let ?a = "\<lambda>p. \<lparr>SignedStorageAsk.Ask = \<lparr>StorageAsk.Miner = ''t01000'', Price = 5\<rparr>, Signature = p\<rparr>"
  have n: "NewAskStream (net ex_client_tracking) (PeerID (ex_info a p)) = Inr (?s p)" for a p
    by (simp add: ex_tracking) (simp add: ex_defs)
  have w: "WriteAskRequest (?s p) \<lparr>AskRequest.Miner = StorageProviderInfo.Address (ex_info a p)\<rparr> = None"
    for a p :: string by simp
  have r: "ReadAskResponse (?s p) = Inr \<lparr>AskResponse.Ask = Some (?a p)\<rparr>" for p :: string by simp
  have k: "AskResponse.Ask \<lparr>AskResponse.Ask = Some (?a p)\<rparr> = Some (?a p)" for p :: string by simp
  have m: "StorageAsk.Miner (SignedStorageAsk.Ask (?a ''peerA'')) \<noteq>
             StorageProviderInfo.Address (ex_info ''t02000'' ''peerA'') \<or>
           ValidateAskSignature (node ex_client_tracking) (?a ''peerA'') \<noteq> None"
    by (simp add: ex_info_def)
  have v: "ValidateAskSignature (node ex_client_tracking) (?a ''peerB'') = Some ''invalid signature''"
    by (simp add: ex_tracking) (simp add: ex_defs)
  then have g: "StorageAsk.Miner (SignedStorageAsk.Ask (?a ''peerB'')) \<noteq>
             StorageProviderInfo.Address (ex_info ''t01000'' ''peerB'') \<or>
           ValidateAskSignature (node ex_client_tracking) (?a ''peerB'') \<noteq> None"
    by simp
  from GetAsk_rejects_wrong_miner_or_signature [OF n w r k m]
       GetAsk_rejects_wrong_miner_or_signature [OF n w r k g] v
  show ?thesis by (simp add: ex_info_def)
qed

subsection \<open>The connection registry\<close>

text \<open>
  Claim C7. \<open>CloseStream\<close> on an identifier that is not in the registry changes nothing and
  returns no error; on an identifier that is in the registry it closes the stream, deletes
  the entry and returns what the close of the stream returned.
\<close>

theorem CloseStream_absent_or_present:
  "(conns c i = None \<longrightarrow> CloseStream c i = (c, None)) \<and>
   (conns c i = Some s \<longrightarrow>
      snd (CloseStream c i) = StorageDealStream.Close s \<and>
      conns (fst (CloseStream c i)) = (conns c)(i := None) \<and>
      trace (fst (CloseStream c i)) = trace c @ [Call_Close s] \<and>
      statemachines (fst (CloseStream c i)) = statemachines c)"
  by (simp add: CloseStream_def Let_def)

theorem CloseStream_absent_or_present_witness:
  "conns ex_client_tracking (Cid 5) = None \<and>
   CloseStream ex_client_tracking (Cid 5) = (ex_client_tracking, None) \<and>
   conns ex_client_tracking (Cid 128) = Some ex_stream \<and>
   snd (CloseStream ex_client_tracking (Cid 128)) = Some ''stream reset'' \<and>
   conns (fst (CloseStream ex_client_tracking (Cid 128))) (Cid 128) = None \<and>
   trace (fst (CloseStream ex_client_tracking (Cid 128))) =
     trace ex_client_tracking @ [Call_Close ex_stream]"
proof -
  have a: "conns ex_client_tracking (Cid 5) = None" by (simp add: ex_tracking)
  have b: "conns ex_client_tracking (Cid 128) = Some ex_stream" by (simp add: ex_tracking)
  from CloseStream_absent_or_present [of ex_client_tracking "Cid 5" ex_stream]
       CloseStream_absent_or_present [of ex_client_tracking "Cid 128" ex_stream] a b
  show ?thesis by (simp add: ex_stream_def)
qed

lemma CloseStream_removes: "conns (fst (CloseStream c i)) i = None"
  by (simp add: CloseStream_def Let_def split: option.splits)

lemma registry_step_absent:
  "conns c i = None \<Longrightarrow> \<not> registers i a \<Longrightarrow> conns (registry_step c a) i = None"
  by (cases a) (auto simp: CloseStream_def Let_def split: option.splits)

lemma registry_run_absent:
  "conns c i = None \<Longrightarrow> \<forall>a \<in> set ops. \<not> registers i a \<Longrightarrow> conns (registry_run c ops) i = None"
  by (induction ops arbitrary: c) (simp_all add: registry_step_absent)

lemma registry_run_snoc:
  "registry_run c (ops @ [a]) = registry_step (registry_run c ops) a"
  by (induction ops arbitrary: c) simp_all

text \<open>
  Claim C8. After \<open>CloseStream\<close> on an identifier, and after any further lookups, closes
  and registrations under other identifiers, \<open>DealStream\<close> on that identifier returns the
  error "no connection to provider"; once a stream is registered under the identifier,
  \<open>DealStream\<close> returns that stream.
\<close>

theorem DealStream_fails_after_CloseStream:
  assumes "\<forall>a \<in> set ops. \<not> registers i a"
  shows "DealStream (registry_run (fst (CloseStream c i)) ops) i = Inl ''no connection to provider'' \<and>
         DealStream (registry_run (fst (CloseStream c i)) (ops @ [Op_put i s])) i = Inr s"
proof -
  have "conns (registry_run (fst (CloseStream c i)) ops) i = None"
    using CloseStream_removes assms by (rule registry_run_absent)
  then show ?thesis by (simp add: DealStream_def registry_run_snoc)
qed

theorem DealStream_fails_after_CloseStream_witness:
  "DealStream ex_client_tracking (Cid 128) = Inr ex_stream \<and>
   DealStream
     (registry_run (fst (CloseStream ex_client_tracking (Cid 128)))
        [Op_DealStream (Cid 128), Op_put (Cid 9) ex_stream, Op_CloseStream (Cid 9),
         Op_CloseStream (Cid 128)]) (Cid 128) = Inl ''no connection to provider'' \<and>
   DealStream
     (registry_run (fst (CloseStream ex_client_tracking (Cid 128)))
        ([Op_DealStream (Cid 128), Op_put (Cid 9) ex_stream, Op_CloseStream (Cid 9),
          Op_CloseStream (Cid 128)] @ [Op_put (Cid 128) ex_stream])) (Cid 128) = Inr ex_stream"
proof -
  have h: "\<forall>a \<in> set [Op_DealStream (Cid 128), Op_put (Cid 9) ex_stream, Op_CloseStream (Cid 9),
                      Op_CloseStream (Cid 128)]. \<not> registers (Cid 128) a"
    by simp
  have d: "DealStream ex_client_tracking (Cid 128) = Inr ex_stream"
    by (simp add: DealStream_def ex_tracking)
  from DealStream_fails_after_CloseStream [OF h, of ex_client_tracking ex_stream] d
  show ?thesis by simp
qed

subsection \<open>The terms of the proposal\<close>



text \<open>
  Claim C10. The collateral argument of \<open>ProposeStorageDeal\<close> is never read: two
  invocations that differ only in it make the same calls with the same arguments (among
  them the proposal handed to the chain node and the record handed to the engine), leave
  the same state and return the same result.
\<close>

theorem collateral_argument_is_ignored:
  "ProposeStorageDeal x c addr info data se ee price collateral rt =
   ProposeStorageDeal x c addr info data se ee price collateral' rt"
  by (simp add: ProposeStorageDeal_def)

theorem collateral_argument_is_ignored_witness:
  "ProposeStorageDeal ex_packages ex_client ''t0100'' (ex_info ''t01000'' ''peerA'') ex_data
     10 20 5 1000000 0 =
   ProposeStorageDeal ex_packages ex_client ''t0100'' (ex_info ''t01000'' ''peerA'') ex_data
     10 20 5 0 0 \<and>
   fst (snd (ProposeStorageDeal ex_packages ex_client ''t0100'' (ex_info ''t01000'' ''peerA'') ex_data
     10 20 5 1000000 0)) = Some \<lparr>ProposeStorageDealResult.ProposalCid = Cid 128\<rparr>"
  using collateral_argument_is_ignored [of ex_packages ex_client "''t0100''"
          "ex_info ''t01000'' ''peerA''" ex_data 10 20 5 1000000 0 0]
  by (simp add: ex_first_run)

end
